theory Spec2Isabelle
  imports Complex_Main "HOL-Library.AList"
begin

section \<open>JavaScript values and the operations the program applies to them\<close>

text \<open>
  The service returns \<^verbatim>\<open>JSON.parse(...)\<close> under a type assertion that is erased at
  run time, so what flows through the program is an arbitrary JavaScript value, not a
  checked \<^verbatim>\<open>AnalysisResult\<close>. Values are modelled dynamically. Characters are
  code units below 256; numbers are rationals (the program only copies and prints them).
\<close>

datatype jsval =
    JUndefined
  | JNull
  | JBool bool
  | JNum rat
  | JStr string
  | JArr "jsval list"
  | JObj "(string \<times> jsval) list"

text \<open>What a \<^verbatim>\<open>throw\<close> or a rejected promise carries.\<close>

datatype js_error =
    Error string
  | TypeError
  | SyntaxError

text \<open>\<^verbatim>\<open>!v\<close> is \<open>\<not> truthy v\<close>.\<close>

fun truthy :: "jsval \<Rightarrow> bool" where
  "truthy JUndefined = False"
| "truthy JNull = False"
| "truthy (JBool b) = b"
| "truthy (JNum n) = (n \<noteq> 0)"
| "truthy (JStr s) = (s \<noteq> [])"
| "truthy (JArr xs) = True"
| "truthy (JObj kvs) = True"

text \<open>\<^verbatim>\<open>!s\<close> for an optional string (\<^verbatim>\<open>string | undefined\<close>).\<close>

fun truthy_str :: "string option \<Rightarrow> bool" where
  "truthy_str None = False"
| "truthy_str (Some s) = (s \<noteq> [])"

definition nullish :: "jsval \<Rightarrow> bool" where
  "nullish v = (v = JUndefined \<or> v = JNull)"

text \<open>\<^verbatim>\<open>Array.prototype.join\<close> on elements already converted to strings.\<close>

fun join :: "string \<Rightarrow> string list \<Rightarrow> string" where
  "join sep [] = []"
| "join sep [x] = x"
| "join sep (x # y # ys) = x @ sep @ join sep (y # ys)"

text \<open>
  \<^verbatim>\<open>String.prototype.trim\<close>: white space and line terminators are removed at both
  ends. Below code unit 256 these are TAB, LF, VT, FF, CR, SPACE and NBSP.
\<close>

definition is_space :: "char \<Rightarrow> bool" where
  "is_space c = (c \<in> {CHR 0x09, CHR 0x0A, CHR 0x0B, CHR 0x0C, CHR 0x0D, CHR 0x20, CHR 0xA0})"

definition trim :: "string \<Rightarrow> string" where
  "trim s = rev (dropWhile is_space (rev (dropWhile is_space s)))"

text \<open>The decimal rendering of an array index, as a property key.\<close>

fun digit_char :: "nat \<Rightarrow> char" where
  "digit_char n = char_of (48 + n)"

fun show_nat :: "nat \<Rightarrow> string" where
  "show_nat n = (if n < 10 then [digit_char n] else show_nat (n div 10) @ [digit_char (n mod 10)])"

declare show_nat.simps [simp del]

text \<open>
  The own enumerable properties that an object spread \<^verbatim>\<open>{...v}\<close> copies: the entries
  of an object, the indexed elements of an array, the indexed characters of a string,
  nothing for the other values.
\<close>

fun own_props :: "jsval \<Rightarrow> (string \<times> jsval) list" where
  "own_props (JObj kvs) = kvs"
| "own_props (JArr xs) = zip (map show_nat [0..<length xs]) xs"
| "own_props (JStr s) = zip (map show_nat [0..<length s]) (map (\<lambda>c. JStr [c]) s)"
| "own_props v = []"

text \<open>
  Reading a property \<^verbatim>\<open>v.k\<close> of a value that is neither \<^verbatim>\<open>undefined\<close> nor
  \<^verbatim>\<open>null\<close>: the own property of that name, or \<^verbatim>\<open>undefined\<close>. Inherited and
  non-enumerable properties (\<^verbatim>\<open>length\<close>, the methods) are not values of this model; the
  program reads through \<open>read_field\<close> only the field names of its own interfaces, and
  its method calls (\<^verbatim>\<open>map\<close>, \<^verbatim>\<open>join\<close>, \<^verbatim>\<open>trim\<close>) are modelled one by one.
\<close>

definition read_field :: "jsval \<Rightarrow> string \<Rightarrow> jsval" where
  "read_field v k = (case map_of (own_props v) k of None \<Rightarrow> JUndefined | Some x \<Rightarrow> x)"

text \<open>\<^verbatim>\<open>v.k\<close> in general: a TypeError on \<^verbatim>\<open>undefined\<close> and \<^verbatim>\<open>null\<close>.\<close>

definition get_prop :: "jsval \<Rightarrow> string \<Rightarrow> js_error + jsval" where
  "get_prop v k = (if nullish v then Inl TypeError else Inr (read_field v k))"

text \<open>
  What an array spread \<^verbatim>\<open>[...v]\<close> iterates: the elements of an array, the characters
  of a string; every other value of this model is not iterable.
\<close>

fun iterate :: "jsval \<Rightarrow> js_error + jsval list" where
  "iterate (JArr xs) = Inr xs"
| "iterate (JStr s) = Inr (map (\<lambda>c. JStr [c]) s)"
| "iterate v = Inl TypeError"

section \<open>The delegate's request and response, and the runtime\<close>

text \<open>The response schemas handed to the delegate (\<^verbatim>\<open>Type.OBJECT\<close> and so on).\<close>

datatype schema =
    SNumber
  | SString
  | SEnum "string list"
  | SArray schema
  | SObject "(string \<times> schema) list" "string list"

definition ANALYSIS_SCHEMA :: schema where
  "ANALYSIS_SCHEMA = SObject
     [(''match_score'', SNumber),
      (''personal_info'', SObject
         [(''name'', SString), (''role'', SString), (''email'', SString),
          (''phone'', SString), (''location'', SString), (''linkedin'', SString),
          (''links'', SArray SString)]
         [''name'', ''email'', ''phone'']),
      (''education'', SArray (SObject
         [(''institution'', SString), (''degree'', SString), (''date'', SString),
          (''description'', SString)]
         [''institution'', ''degree''])),
      (''experience'', SArray (SObject
         [(''company'', SString), (''role'', SString), (''date'', SString),
          (''bullets'', SArray SString)]
         [''company'', ''role'', ''bullets''])),
      (''skills'', SArray (SObject
         [(''category'', SString), (''items'', SArray SString)]
         [''category'', ''items''])),
      (''certifications'', SArray SString),
      (''missing_keywords'', SArray SString),
      (''hard_skill_gaps'', SArray SString),
      (''soft_skill_gaps'', SArray SString),
      (''formatting_issues'', SArray SString),
      (''impact_analysis'', SString),
      (''impact_score'', SNumber),
      (''original_text'', SString),
      (''annotations'', SArray (SObject
         [(''text_segment'', SString), (''critique'', SString),
          (''severity'', SEnum [''low'', ''medium'', ''high'']),
          (''suggested_fix'', SString)]
         [''text_segment'', ''critique'', ''severity''])),
      (''mode'', SEnum [''generalized'', ''specific''])]
     [''match_score'', ''personal_info'', ''education'', ''experience'', ''skills'',
      ''certifications'', ''missing_keywords'', ''hard_skill_gaps'', ''soft_skill_gaps'',
      ''formatting_issues'', ''impact_analysis'', ''impact_score'', ''original_text'',
      ''annotations'', ''mode'']"

definition RECTIFY_SCHEMA :: schema where
  "RECTIFY_SCHEMA = SObject
     [(''revisedSummary'', SString), (''revisedExperience'', SArray (SObject
         [(''company'', SString), (''role'', SString), (''date'', SString),
          (''bullets'', SArray SString)]
         [''company'', ''role'', ''bullets'']))]
     [''revisedSummary'', ''revisedExperience'']"

datatype part =
    TextPart string
  | InlineData string string

datatype contents =
    Parts "part list"
  | Prompt string

record thinking_config =
  thinkingBudget :: nat

record gen_config =
  responseMimeType :: string
  responseSchema :: schema
  thinkingConfig :: thinking_config

record request =
  model :: string
  contents :: contents
  config :: gen_config

text \<open>\<^verbatim>\<open>response.text\<close> is a string or \<^verbatim>\<open>undefined\<close>.\<close>

record response =
  resp_text :: "string option"

text \<open>
  What the program takes from outside its own source: the environment variable, the
  client library and the built-ins whose results depend on the engine.
  \<^item> \<open>API_KEY\<close>: \<^verbatim>\<open>process.env.API_KEY\<close>;
  \<^item> \<open>GoogleGenAI\<close>: the client constructor, given the key; \<open>Some e\<close> when it throws;
  \<^item> \<open>generateContent\<close>: the delegate call of a client built with the given key;
  \<^item> \<open>JSON_parse\<close>: \<open>None\<close> when \<^verbatim>\<open>JSON.parse\<close> throws its SyntaxError;
  \<^item> \<open>JSON_stringify\<close>: \<open>None\<close> when \<^verbatim>\<open>JSON.stringify\<close> gives \<^verbatim>\<open>undefined\<close>;
  \<^item> \<open>Number_toString\<close>: the string conversion of a number.
\<close>

record runtime =
  API_KEY :: "string option"
  GoogleGenAI :: "string option \<Rightarrow> js_error option"
  generateContent :: "string option \<Rightarrow> request \<Rightarrow> js_error + response"
  JSON_parse :: "string \<Rightarrow> jsval option"
  JSON_stringify :: "jsval \<Rightarrow> string option"
  Number_toString :: "rat \<Rightarrow> string"


text \<open>
  The string conversion of a template literal \<^verbatim>\<open>${v}\<close>, and of the elements that
  \<^verbatim>\<open>join\<close> prints (\<open>toStrings\<close>, where \<^verbatim>\<open>undefined\<close> and \<^verbatim>\<open>null\<close> elements
  print empty). An array prints its elements joined by commas. An object prints as
  \<^verbatim>\<open>[object Object]\<close> through the method it inherits; an own property named
  \<^verbatim>\<open>toString\<close> hides that method and, in a value of this model, is never a function,
  so the conversion throws a TypeError.
\<close>

fun toString :: "runtime \<Rightarrow> jsval \<Rightarrow> js_error + string"
  and toStrings :: "runtime \<Rightarrow> jsval list \<Rightarrow> js_error + string list" where
  "toString rt JUndefined = Inr ''undefined''"
| "toString rt JNull = Inr ''null''"
| "toString rt (JBool b) = Inr (if b then ''true'' else ''false'')"
| "toString rt (JNum n) = Inr (Number_toString rt n)"
| "toString rt (JStr s) = Inr s"
| "toString rt (JArr xs) =
     (case toStrings rt xs of Inl e \<Rightarrow> Inl e | Inr ss \<Rightarrow> Inr (join '','' ss))"
| "toString rt (JObj kvs) =
     (if map_of kvs ''toString'' = None then Inr ''[object Object]'' else Inl TypeError)"
| "toStrings rt [] = Inr []"
| "toStrings rt (x # xs) =
     (case (if x = JUndefined \<or> x = JNull then Inr [] else toString rt x) of
        Inl e \<Rightarrow> Inl e
      | Inr s \<Rightarrow> (case toStrings rt xs of Inl e \<Rightarrow> Inl e | Inr ss \<Rightarrow> Inr (s # ss)))"

text \<open>
  \<^verbatim>\<open>xs.join(sep)\<close> on the elements of an array, and \<^verbatim>\<open>v.join(sep)\<close> on any value:
  only an array has the method.
\<close>

definition join_values :: "runtime \<Rightarrow> string \<Rightarrow> jsval list \<Rightarrow> js_error + string" where
  "join_values rt sep xs =
     (case toStrings rt xs of Inl e \<Rightarrow> Inl e | Inr ss \<Rightarrow> Inr (join sep ss))"

fun array_join :: "runtime \<Rightarrow> string \<Rightarrow> jsval \<Rightarrow> js_error + string" where
  "array_join rt sep (JArr xs) = join_values rt sep xs"
| "array_join rt sep v = Inl TypeError"

text \<open>\<^verbatim>\<open>${JSON.stringify(v)}\<close>.\<close>

definition stringify_text :: "runtime \<Rightarrow> jsval \<Rightarrow> string" where
  "stringify_text rt v = (case JSON_stringify rt v of None \<Rightarrow> ''undefined'' | Some s \<Rightarrow> s)"

section \<open>The data of \<^verbatim>\<open>types.ts\<close>\<close>

record file_payload =
  data :: string
  mimeType :: string
  name :: string

record ResumeSource =
  src_text :: "string option"
  src_file :: "file_payload option"

text \<open>
  The draft is always built by the program as an object literal of these six fields;
  their contents are whatever the parsed responses held.
\<close>

record ResumeDraft =
  personal_info :: jsval
  education :: jsval
  experience :: jsval
  skills :: jsval
  certifications :: jsval
  summary :: jsval

section \<open>The service: three snapshots of \<^verbatim>\<open>services/geminiService\<close>\<close>

text \<open>
  A service call returns its result, or the error it rejects with, together with the
  requests it issued to the delegate, in order. Console output is not modelled.
\<close>

type_synonym 'a io = "(js_error + 'a) \<times> request list"

definition isGeneralized :: "string option \<Rightarrow> bool" where
  "isGeneralized jobDescription =
     (case jobDescription of
        None \<Rightarrow> True
      | Some jd \<Rightarrow> jd = [] \<or> length (trim jd) = 0)"

text \<open>
  The parts of an analysis request: the instruction, then the file when there is one, or
  else the text when it is a non-empty string.
\<close>

definition analysis_parts :: "string \<Rightarrow> string \<Rightarrow> ResumeSource \<Rightarrow> part list" where
  "analysis_parts systemPrompt label source =
     (case src_file source of
        Some f \<Rightarrow> [TextPart systemPrompt, InlineData (data f) (mimeType f)]
      | None \<Rightarrow>
          (case src_text source of
             None \<Rightarrow> [TextPart systemPrompt]
           | Some t \<Rightarrow>
               (if t = [] then [TextPart systemPrompt]
                else [TextPart systemPrompt, TextPart (label @ ''\<newline>'' @ t)])))"

definition analysis_request :: "part list \<Rightarrow> nat \<Rightarrow> request" where
  "analysis_request parts budget =
     \<lparr>model = ''gemini-3-pro-preview'',
      contents = Parts parts,
      config = \<lparr>responseMimeType = ''application/json'',
                responseSchema = ANALYSIS_SCHEMA,
                thinkingConfig = \<lparr>thinkingBudget = budget\<rparr>\<rparr>\<rparr>"

definition rectify_request :: "string \<Rightarrow> nat \<Rightarrow> request" where
  "rectify_request prompt budget =
     \<lparr>model = ''gemini-3-pro-preview'',
      contents = Prompt prompt,
      config = \<lparr>responseMimeType = ''application/json'',
                responseSchema = RECTIFY_SCHEMA,
                thinkingConfig = \<lparr>thinkingBudget = budget\<rparr>\<rparr>\<rparr>"

text \<open>
  \<^verbatim>\<open>[...analysis.missing_keywords, ...analysis.hard_skill_gaps].join(', ')\<close>, the
  same line in the three snapshots. It throws a TypeError when the analysis is
  \<^verbatim>\<open>undefined\<close> or \<^verbatim>\<open>null\<close>, when one of the two fields is not iterable, or when
  an element has no string conversion.
\<close>

definition keywordsList :: "runtime \<Rightarrow> jsval \<Rightarrow> js_error + string" where
  "keywordsList rt analysis =
     (case get_prop analysis ''missing_keywords'' of
        Inl e \<Rightarrow> Inl e
      | Inr mk \<Rightarrow>
          (case iterate mk of
             Inl e \<Rightarrow> Inl e
           | Inr xs \<Rightarrow>
               (case iterate (read_field analysis ''hard_skill_gaps'') of
                  Inl e \<Rightarrow> Inl e
                | Inr ys \<Rightarrow> join_values rt '', '' (xs @ ys))))"

subsection \<open>Snapshot \<^verbatim>\<open>part_000\<close>\<close>

definition systemPrompt_p0 :: string where
  "systemPrompt_p0 = join ''\<newline>''
     [''You are a Senior Full-Stack AI Engineer and CV Data Architect. '',
      ''  TASK: Perform a lossless high-fidelity extraction and analysis.'',
      ''  '',
      ''  ZERO-LOSS PROTOCOL:'',
      ''  1. Capture 100% of roles, companies, and bullet points.'',
      ''  2. Map personal data exactly. Use 'Present' for current roles.'',
      ''  3. Categorize skills into logical groups.'',
      ''  '',
      ''  OUTPUT: Strict JSON matching the schema. No text wrapping.'']"

text \<open>
  The revision prompt. Its template converts \<^verbatim>\<open>analysis.impact_analysis\<close> to a string,
  which may throw; \<^verbatim>\<open>JSON.stringify\<close> does not.
\<close>

definition rectifyPrompt_p0 :: "runtime \<Rightarrow> string \<Rightarrow> jsval \<Rightarrow> js_error + string" where
  "rectifyPrompt_p0 rt keywords analysis =
     (case toString rt (read_field analysis ''impact_analysis'') of
        Inl e \<Rightarrow> Inl e
      | Inr impact \<Rightarrow> Inr (join ''\<newline>''
     [''You are an expert Resume Surgeon. '',
      ''  TASK: Transform bullets to Action-Result format without omitting ANY existing data.'',
      ''  '',
      ''  STRICT RULES:'',
      ''  1. Maintain 100% of roles and companies.'',
      ''  2. Integrate: ['' @ keywords @ ''].'',
      ''  3. DO NOT cut the middle of text.'',
      ''  '',
      ''  INPUT:'',
      ''  Summary: '' @ impact,
      ''  Experience: '' @ stringify_text rt (read_field analysis ''experience'')]))"

text \<open>
  The tail of both functions of \<^verbatim>\<open>part_000\<close>: an absent or empty text is the
  error \<^verbatim>\<open>Empty response from AI\<close>, otherwise the trimmed text is parsed and the parsed
  value is returned as it is.
\<close>

definition parse_response_p0 :: "runtime \<Rightarrow> response \<Rightarrow> js_error + jsval" where
  "parse_response_p0 rt resp =
     (case resp_text resp of
        None \<Rightarrow> Inl (Error ''Empty response from AI'')
      | Some t \<Rightarrow>
          (if t = [] then Inl (Error ''Empty response from AI'')
           else (case JSON_parse rt (trim t) of
                   None \<Rightarrow> Inl SyntaxError
                 | Some v \<Rightarrow> Inr v)))"

definition analyzeResume_p0 :: "runtime \<Rightarrow> ResumeSource \<Rightarrow> string option \<Rightarrow> jsval io" where
  "analyzeResume_p0 rt source jobDescription =
     (if \<not> truthy_str (API_KEY rt) then (Inl (Error ''Missing API Key''), [])
      else
        (case GoogleGenAI rt (API_KEY rt) of
           Some e \<Rightarrow> (Inl e, [])
         | None \<Rightarrow>
             (let generalized = isGeneralized jobDescription;
                  parts = analysis_parts systemPrompt_p0 ''RAW CONTENT:'' source;
                  req = analysis_request parts 4000
              in (case generateContent rt (API_KEY rt) req of
                    Inl e \<Rightarrow> (Inl e, [req])
                  | Inr resp \<Rightarrow> (parse_response_p0 rt resp, [req])))))"

definition rectifyResume_p0 :: "runtime \<Rightarrow> jsval \<Rightarrow> string option \<Rightarrow> jsval io" where
  "rectifyResume_p0 rt analysis jobDescription =
     (if \<not> truthy_str (API_KEY rt) then (Inl (Error ''Missing API Key''), [])
      else
        (case GoogleGenAI rt (API_KEY rt) of
           Some e \<Rightarrow> (Inl e, [])
         | None \<Rightarrow>
             (case keywordsList rt analysis of
                Inl e \<Rightarrow> (Inl e, [])
              | Inr keywords \<Rightarrow>
                  (case rectifyPrompt_p0 rt keywords analysis of
                     Inl e \<Rightarrow> (Inl e, [])
                   | Inr prompt \<Rightarrow>
                       (let req = rectify_request prompt 4000
                        in (case generateContent rt (API_KEY rt) req of
                              Inl e \<Rightarrow> (Inl e, [req])
                            | Inr resp \<Rightarrow> (parse_response_p0 rt resp, [req])))))))"

subsection \<open>Snapshots \<^verbatim>\<open>part_001\<close> and \<^verbatim>\<open>part_002\<close>\<close>

definition systemPrompt_p1 :: "bool \<Rightarrow> string" where
  "systemPrompt_p1 generalized = join ''\<newline>''
     [''You are the High-Fidelity CV Data Architect. '',
      ''  TASK: Perform a FULL EXTRACTION of the provided CV. '',
      ''  '',
      ''  STRICT RULES:'',
      ''  1. DO NOT TRUNCATE professional experience. Capture EVERY bullet point provided in the source.'',
      ''  2. If a section like 'Education' or 'Skills' exists, it MUST be extracted 100%. '',
      ''  3. Map personal data exactly. Fix logical errors (e.g. '2025' should be 'Present' if relevant to current employment).'',
      ''  '',
      ''  ANALYSIS:'',
      ''  - Mode: '' @ (if generalized then ''GENERAL'' else ''SPECIFIC ALIGNMENT'') @ ''.'',
      ''  - Be critical about the ATS score (0-100).'',
      ''  - List keywords missing relative to the JD.'',
      ''  '',
      ''  OUTPUT FORMAT: JSON ONLY. DO NOT ADD MARKDOWN WRAPPERS.'']"

definition rectifyPrompt_p1 :: "runtime \<Rightarrow> string \<Rightarrow> jsval \<Rightarrow> js_error + string" where
  "rectifyPrompt_p1 rt keywords analysis =
     (case toString rt (read_field analysis ''impact_analysis'') of
        Inl e \<Rightarrow> Inl e
      | Inr impact \<Rightarrow> Inr (join ''\<newline>''
     [''You are a Senior Resume Surgeon. '',
      ''  TASK: Refactor professional bullets for maximum impact without losing information.'',
      ''  '',
      ''  ZERO-LOSS RECTIFICATION RULES:'',
      ''  1. Use the Action-Result format for ALL bullets.'',
      ''  2. Maintain 100% of the roles and companies from the input. '',
      ''  3. DO NOT cut the middle of text. Each bullet must be a complete sentence.'',
      ''  4. Inject these keywords naturally: ['' @ keywords @ ''].'',
      ''  '',
      ''  INPUT EXPERIENCE:'',
      ''  '' @ stringify_text rt (read_field analysis ''experience''),
      ''  '',
      ''  INPUT SUMMARY:'',
      ''  '' @ impact]))"

definition systemPrompt_p2 :: string where
  "systemPrompt_p2 = join ''\<newline>''
     [''You are a Senior Full-Stack AI Engineer and CV Data Architect. '',
      ''  TASK: Perform a lossless high-fidelity extraction and analysis of the provided resume.'',
      ''  '',
      ''  ZERO-LOSS PROTOCOL:'',
      ''  1. DO NOT discard or summarize sections out of existence.'',
      ''  2. Extract 100% of the roles, companies, dates, and bullet points. '',
      ''  3. Ensure 'Present' is used for current roles instead of future-dated years like '2025'.'',
      ''  4. Categorize skills into logical groups (e.g., Languages, Frameworks, Tools).'',
      ''  '',
      ''  ANALYSIS:'',
      ''  - If a JD is provided, match strictly against it. '',
      ''  - If not, audit against universal ATS formatting and impact best practices.'',
      ''  '',
      ''  OUTPUT: Strict JSON matching the schema.'']"

definition rectifyPrompt_p2 :: "runtime \<Rightarrow> string \<Rightarrow> jsval \<Rightarrow> js_error + string" where
  "rectifyPrompt_p2 rt keywords analysis =
     (case toString rt (read_field analysis ''impact_analysis'') of
        Inl e \<Rightarrow> Inl e
      | Inr impact \<Rightarrow> Inr (join ''\<newline>''
     [''You are an expert Resume Surgeon. '',
      ''  TASK: Optimize the summary and experience bullets while maintaining a strictly ZERO-LOSS approach.'',
      ''  '',
      ''  SURGERY RULES:'',
      ''  1. Transform every experience bullet into an 'Action-Result' masterpiece (e.g., 'Enhanced system throughput by 40% via implementation of X').'',
      ''  2. Maintain EVERY role and company. DO NOT omit history to save space.'',
      ''  3. Integrate keywords naturally: ['' @ keywords @ ''].'',
      ''  4. Ensure sentences are complete and professional. No '' @ [CHR 0x22] @ ''cut-out'' @ [CHR 0x22] @ '' text.'',
      ''  '',
      ''  INPUT DATA:'',
      ''  Summary: '' @ impact,
      ''  Experience: '' @ stringify_text rt (read_field analysis ''experience'')]))"

text \<open>
  The tail of both functions of \<^verbatim>\<open>part_001\<close> and \<^verbatim>\<open>part_002\<close>:
  \<^verbatim>\<open>JSON.parse(response.text.trim() || '{}')\<close>. Calling \<^verbatim>\<open>trim\<close> on an absent text
  is a TypeError; a text that is empty after trimming is replaced by \<^verbatim>\<open>{}\<close>.
\<close>

definition parse_response_p1 :: "runtime \<Rightarrow> response \<Rightarrow> js_error + jsval" where
  "parse_response_p1 rt resp =
     (case resp_text resp of
        None \<Rightarrow> Inl TypeError
      | Some t \<Rightarrow>
          (case JSON_parse rt (if trim t = [] then ''{}'' else trim t) of
             None \<Rightarrow> Inl SyntaxError
           | Some v \<Rightarrow> Inr v))"

definition analyzeResume_p1 :: "runtime \<Rightarrow> ResumeSource \<Rightarrow> string option \<Rightarrow> jsval io" where
  "analyzeResume_p1 rt source jobDescription =
     (case GoogleGenAI rt (API_KEY rt) of
        Some e \<Rightarrow> (Inl e, [])
      | None \<Rightarrow>
          (let generalized = isGeneralized jobDescription;
               parts = analysis_parts (systemPrompt_p1 generalized) ''CV CONTENT:'' source;
               req = analysis_request parts 8000
           in (case generateContent rt (API_KEY rt) req of
                 Inl e \<Rightarrow> (Inl e, [req])
               | Inr resp \<Rightarrow> (parse_response_p1 rt resp, [req]))))"

definition rectifyResume_p1 :: "runtime \<Rightarrow> jsval \<Rightarrow> string option \<Rightarrow> jsval io" where
  "rectifyResume_p1 rt analysis jobDescription =
     (case GoogleGenAI rt (API_KEY rt) of
        Some e \<Rightarrow> (Inl e, [])
      | None \<Rightarrow>
          (case keywordsList rt analysis of
             Inl e \<Rightarrow> (Inl e, [])
           | Inr keywords \<Rightarrow>
               (case rectifyPrompt_p1 rt keywords analysis of
                  Inl e \<Rightarrow> (Inl e, [])
                | Inr prompt \<Rightarrow>
                    (let req = rectify_request prompt 8000
                     in (case generateContent rt (API_KEY rt) req of
                           Inl e \<Rightarrow> (Inl e, [req])
                         | Inr resp \<Rightarrow> (parse_response_p1 rt resp, [req]))))))"

definition analyzeResume_p2 :: "runtime \<Rightarrow> ResumeSource \<Rightarrow> string option \<Rightarrow> jsval io" where
  "analyzeResume_p2 rt source jobDescription =
     (case GoogleGenAI rt (API_KEY rt) of
        Some e \<Rightarrow> (Inl e, [])
      | None \<Rightarrow>
          (let generalized = isGeneralized jobDescription;
               parts = analysis_parts systemPrompt_p2 ''RAW CONTENT:'' source;
               req = analysis_request parts 8000
           in (case generateContent rt (API_KEY rt) req of
                 Inl e \<Rightarrow> (Inl e, [req])
               | Inr resp \<Rightarrow> (parse_response_p1 rt resp, [req]))))"

definition rectifyResume_p2 :: "runtime \<Rightarrow> jsval \<Rightarrow> string option \<Rightarrow> jsval io" where
  "rectifyResume_p2 rt analysis jobDescription =
     (case GoogleGenAI rt (API_KEY rt) of
        Some e \<Rightarrow> (Inl e, [])
      | None \<Rightarrow>
          (case keywordsList rt analysis of
             Inl e \<Rightarrow> (Inl e, [])
           | Inr keywords \<Rightarrow>
               (case rectifyPrompt_p2 rt keywords analysis of
                  Inl e \<Rightarrow> (Inl e, [])
                | Inr prompt \<Rightarrow>
                    (let req = rectify_request prompt 8000
                     in (case generateContent rt (API_KEY rt) req of
                           Inl e \<Rightarrow> (Inl e, [req])
                         | Inr resp \<Rightarrow> (parse_response_p1 rt resp, [req]))))))"

text \<open>The three snapshots by name, and the module each one exports.\<close>

datatype service_snapshot = Part_000 | Part_001 | Part_002

fun analyzeResume_of ::
  "service_snapshot \<Rightarrow> runtime \<Rightarrow> ResumeSource \<Rightarrow> string option \<Rightarrow> jsval io" where
  "analyzeResume_of Part_000 = analyzeResume_p0"
| "analyzeResume_of Part_001 = analyzeResume_p1"
| "analyzeResume_of Part_002 = analyzeResume_p2"

fun rectifyResume_of ::
  "service_snapshot \<Rightarrow> runtime \<Rightarrow> jsval \<Rightarrow> string option \<Rightarrow> jsval io" where
  "rectifyResume_of Part_000 = rectifyResume_p0"
| "rectifyResume_of Part_001 = rectifyResume_p1"
| "rectifyResume_of Part_002 = rectifyResume_p2"

section \<open>Conformance to a response schema\<close>

text \<open>
  No function of the program checks that a value has "the declared structure": the
  schema is only handed to the delegate. The check is written here from the words of the
  specification, to state what the service does not do: every required field is
  present, and every field that is present and declared has the declared type,
  enumerations included.
\<close>

fun conforms :: "schema \<Rightarrow> jsval \<Rightarrow> bool" where
  "conforms SNumber v = (case v of JNum n \<Rightarrow> True | _ \<Rightarrow> False)"
| "conforms SString v = (case v of JStr s \<Rightarrow> True | _ \<Rightarrow> False)"
| "conforms (SEnum allowed) v = (case v of JStr s \<Rightarrow> s \<in> set allowed | _ \<Rightarrow> False)"
| "conforms (SArray item) v = (case v of JArr xs \<Rightarrow> list_all (conforms item) xs | _ \<Rightarrow> False)"
| "conforms (SObject props required) v =
     (case v of
        JObj kvs \<Rightarrow>
          list_all (\<lambda>k. map_of kvs k \<noteq> None \<and> map_of kvs k \<noteq> Some JUndefined) required \<and>
          list_all (\<lambda>(k, sch). case map_of kvs k of
                                  None \<Rightarrow> True
                                | Some x \<Rightarrow> x = JUndefined \<or> conforms sch x) props
      | _ \<Rightarrow> False)"

section \<open>The application state and its handlers: two snapshots of \<^verbatim>\<open>App.tsx\<close>\<close>

text \<open>
  The component state. \<open>analysis\<close> starts as \<^verbatim>\<open>null\<close> and \<open>prevScore\<close> as
  \<^verbatim>\<open>undefined\<close>; both later hold whatever the service returned.
\<close>

record app_state =
  resumeSource :: "ResumeSource option"
  jobDescription :: string
  isAnalyzing :: bool
  analysis :: jsval
  prevScore :: jsval
  isRectifying :: bool
  draft :: "ResumeDraft option"

definition initial_state :: app_state where
  "initial_state =
     \<lparr>resumeSource = None, jobDescription = [], isAnalyzing = False, analysis = JNull,
      prevScore = JUndefined, isRectifying = False, draft = None\<rparr>"

definition setResumeSource :: "ResumeSource option \<Rightarrow> app_state \<Rightarrow> app_state" where
  "setResumeSource v s = s\<lparr>resumeSource := v\<rparr>"

definition setJobDescription :: "string \<Rightarrow> app_state \<Rightarrow> app_state" where
  "setJobDescription v s = s\<lparr>jobDescription := v\<rparr>"

definition setIsAnalyzing :: "bool \<Rightarrow> app_state \<Rightarrow> app_state" where
  "setIsAnalyzing v s = s\<lparr>isAnalyzing := v\<rparr>"

definition setAnalysis :: "jsval \<Rightarrow> app_state \<Rightarrow> app_state" where
  "setAnalysis v s = s\<lparr>analysis := v\<rparr>"

definition setPrevScore :: "jsval \<Rightarrow> app_state \<Rightarrow> app_state" where
  "setPrevScore v s = s\<lparr>prevScore := v\<rparr>"

definition setIsRectifying :: "bool \<Rightarrow> app_state \<Rightarrow> app_state" where
  "setIsRectifying v s = s\<lparr>isRectifying := v\<rparr>"

definition setDraft :: "ResumeDraft option \<Rightarrow> app_state \<Rightarrow> app_state" where
  "setDraft v s = s\<lparr>draft := v\<rparr>"

text \<open>The service module a snapshot of the application is linked with.\<close>

record service =
  analyzeResume :: "ResumeSource \<Rightarrow> string option \<Rightarrow> jsval io"
  rectifyResume :: "jsval \<Rightarrow> string option \<Rightarrow> jsval io"

definition geminiService :: "service_snapshot \<Rightarrow> runtime \<Rightarrow> service" where
  "geminiService p rt =
     \<lparr>analyzeResume = analyzeResume_of p rt, rectifyResume = rectifyResume_of p rt\<rparr>"

datatype app_snapshot = App_a | App_b

datatype call =
    AnalyzeCall ResumeSource "string option"
  | RectifyCall jsval "string option"

text \<open>
  An alert with a fixed text, or the alert of the second snapshot's \<^verbatim>\<open>handleAnalyze\<close>,
  whose text is built from the message of the error it caught.
\<close>

datatype alert =
    Alert string
  | AuditFailed js_error

text \<open>
  What running a handler does. The state updates made between two suspension points
  (an \<^verbatim>\<open>await\<close>, or the end of the handler) are applied together, so \<open>commits\<close> lists
  the states the component passes through, in order. \<open>calls\<close> are the service calls made,
  \<open>requests\<close> the delegate requests they issued, \<open>alerts\<close> the alerts shown. \<open>uncaught\<close>
  is an error thrown by a state updater while the last update was applied, outside the
  handler's \<^verbatim>\<open>try\<close>; that update is then not in \<open>commits\<close>.
\<close>

record outcome =
  commits :: "app_state list"
  calls :: "call list"
  requests :: "request list"
  alerts :: "alert list"
  uncaught :: "js_error option"

definition nothing :: outcome where
  "nothing = \<lparr>commits = [], calls = [], requests = [], alerts = [], uncaught = None\<rparr>"

text \<open>The state a handler leaves behind.\<close>

definition after :: "app_state \<Rightarrow> outcome \<Rightarrow> app_state" where
  "after s out = last (s # commits out)"



fun analyzeAlert :: "app_snapshot \<Rightarrow> js_error \<Rightarrow> alert" where
  "analyzeAlert App_a err =
     Alert ''Extraction failed. Please ensure the document is not password protected.''"
| "analyzeAlert App_b err = AuditFailed err"

fun rectifyAlert :: "app_snapshot \<Rightarrow> alert" where
  "rectifyAlert App_a = Alert ''The surgery was interrupted. Please try again.''"
| "rectifyAlert App_b = Alert ''Optimization gateway timed out. Please try again.''"

text \<open>
  \<^verbatim>\<open>handleAnalyze\<close>. The result is stored first; reading \<^verbatim>\<open>res.match_score\<close> then
  throws when the result is \<^verbatim>\<open>null\<close>, inside the \<^verbatim>\<open>try\<close>.
\<close>

definition handleAnalyze :: "app_snapshot \<Rightarrow> service \<Rightarrow> app_state \<Rightarrow> outcome" where
  "handleAnalyze ver svc s =
     (case resumeSource s of
        None \<Rightarrow> nothing
      | Some source \<Rightarrow>
          (let jd = Some (jobDescription s);
               s1 = setIsAnalyzing True s;
               called = nothing\<lparr>calls := [AnalyzeCall source jd]\<rparr>
           in (case analyzeResume svc source jd of
                 (Inl err, reqs) \<Rightarrow>
                   called\<lparr>commits := [s1, setIsAnalyzing False s1], requests := reqs,
                          alerts := [analyzeAlert ver err]\<rparr>
               | (Inr res, reqs) \<Rightarrow>
                   (let s2 = setAnalysis res s1
                    in if nullish res
                       then called\<lparr>commits := [s1, setIsAnalyzing False s2], requests := reqs,
                                   alerts := [analyzeAlert ver TypeError]\<rparr>
                       else
                         (let s3 = setPrevScore (read_field res ''match_score'') s2;
                              s4 = setDraft (Some
                                     \<lparr>personal_info = read_field res ''personal_info'',
                                      education = read_field res ''education'',
                                      experience = read_field res ''experience'',
                                      skills = read_field res ''skills'',
                                      certifications = read_field res ''certifications'',
                                      summary = read_field res ''impact_analysis''\<rparr>) s3
                          in called\<lparr>commits := [s1, setIsAnalyzing False s4],
                                    requests := reqs\<rparr>)))))"

text \<open>Mapping a function that may throw over a list: the first error ends it.\<close>

fun map_throwing :: "('a \<Rightarrow> js_error + 'b) \<Rightarrow> 'a list \<Rightarrow> js_error + 'b list" where
  "map_throwing f [] = Inr []"
| "map_throwing f (x # xs) =
     (case f x of
        Inl e \<Rightarrow> Inl e
      | Inr y \<Rightarrow> (case map_throwing f xs of Inl e \<Rightarrow> Inl e | Inr ys \<Rightarrow> Inr (y # ys)))"

text \<open>
  The rendering of one experience entry in the text that is scored again:
  \<^verbatim>\<open>`${e.role}\n${e.bullets.join('\n')}`\<close> in the first snapshot,
  \<^verbatim>\<open>`${e.role} at ${e.company}\n${e.bullets.join('\n')}`\<close> in the second.
\<close>

fun renderEntry :: "app_snapshot \<Rightarrow> runtime \<Rightarrow> jsval \<Rightarrow> js_error + string" where
  "renderEntry App_a rt e =
     (case get_prop e ''role'' of
        Inl err \<Rightarrow> Inl err
      | Inr r \<Rightarrow>
          (case toString rt r of
             Inl err \<Rightarrow> Inl err
           | Inr rs \<Rightarrow>
               (case array_join rt ''\<newline>'' (read_field e ''bullets'') of
                  Inl err \<Rightarrow> Inl err
                | Inr bs \<Rightarrow> Inr (rs @ ''\<newline>'' @ bs))))"
| "renderEntry App_b rt e =
     (case get_prop e ''role'' of
        Inl err \<Rightarrow> Inl err
      | Inr r \<Rightarrow>
          (case toString rt r of
             Inl err \<Rightarrow> Inl err
           | Inr rs \<Rightarrow>
               (case toString rt (read_field e ''company'') of
                  Inl err \<Rightarrow> Inl err
                | Inr cs \<Rightarrow>
                    (case array_join rt ''\<newline>'' (read_field e ''bullets'') of
                       Inl err \<Rightarrow> Inl err
                     | Inr bs \<Rightarrow> Inr (rs @ '' at '' @ cs @ ''\<newline>'' @ bs)))))"

text \<open>
  \<^verbatim>\<open>fullContent\<close> (\<^verbatim>\<open>fullText\<close> in the second snapshot): the summary, an empty line,
  and the rendered entries one per line. The summary is converted first; only an array
  has \<^verbatim>\<open>map\<close>.
\<close>

definition fullContent :: "app_snapshot \<Rightarrow> runtime \<Rightarrow> ResumeDraft \<Rightarrow> js_error + string" where
  "fullContent ver rt newDraft =
     (case toString rt (summary newDraft) of
        Inl err \<Rightarrow> Inl err
      | Inr sm \<Rightarrow>
          (case experience newDraft of
             JArr entries \<Rightarrow>
               (case map_throwing (renderEntry ver rt) entries of
                  Inl err \<Rightarrow> Inl err
                | Inr rendered \<Rightarrow> Inr (sm @ ''\<newline>\<newline>'' @ join ''\<newline>'' rendered))
           | _ \<Rightarrow> Inl TypeError))"

text \<open>
  The updater \<^verbatim>\<open>prev => prev ? ({ ...prev, match_score: reScore.match_score }) : null\<close>.
\<close>

definition rescoreUpdater :: "jsval \<Rightarrow> jsval \<Rightarrow> js_error + jsval" where
  "rescoreUpdater reScore prev =
     (if truthy prev
      then (case get_prop reScore ''match_score'' of
              Inl err \<Rightarrow> Inl err
            | Inr score \<Rightarrow> Inr (JObj (AList.update ''match_score'' score (own_props prev))))
      else Inr JNull)"

text \<open>
  \<^verbatim>\<open>handleRectify\<close>. \<open>newDraft\<close> is \<^verbatim>\<open>{ ...draft, summary: res.revisedSummary,
  experience: res.revisedExperience }\<close>; reading the two fields throws when the revision
  result is \<^verbatim>\<open>null\<close>. The draft is replaced before the second service call is awaited;
  the analysis is touched only by the updater, after that call has succeeded.
\<close>

definition newDraft :: "ResumeDraft \<Rightarrow> jsval \<Rightarrow> ResumeDraft" where
  "newDraft d res =
     d\<lparr>summary := read_field res ''revisedSummary'',
       experience := read_field res ''revisedExperience''\<rparr>"

definition handleRectify ::
  "app_snapshot \<Rightarrow> runtime \<Rightarrow> service \<Rightarrow> app_state \<Rightarrow> outcome" where
  "handleRectify ver rt svc s =
     (if \<not> truthy (analysis s) then nothing
      else
        (case draft s of
           None \<Rightarrow> nothing
         | Some d \<Rightarrow>
             (let jd = Some (jobDescription s);
                  s1 = setIsRectifying True s;
                  called = nothing\<lparr>calls := [RectifyCall (analysis s) jd]\<rparr>
              in (case rectifyResume svc (analysis s) jd of
                    (Inl err, reqs) \<Rightarrow>
                      called\<lparr>commits := [s1, setIsRectifying False s1], requests := reqs,
                             alerts := [rectifyAlert ver]\<rparr>
                  | (Inr res, reqs) \<Rightarrow>
                      (if nullish res
                       then called\<lparr>commits := [s1, setIsRectifying False s1], requests := reqs,
                                   alerts := [rectifyAlert ver]\<rparr>
                       else
                         (let s2 = setDraft (Some (newDraft d res)) s1
                          in (case fullContent ver rt (newDraft d res) of
                                Inl err \<Rightarrow>
                                  called\<lparr>commits := [s1, setIsRectifying False s2],
                                         requests := reqs, alerts := [rectifyAlert ver]\<rparr>
                              | Inr text \<Rightarrow>
                                  (let source = \<lparr>src_text = Some text, src_file = None\<rparr>;
                                       called2 = called\<lparr>calls := calls called @ [AnalyzeCall source jd]\<rparr>
                                   in (case analyzeResume svc source jd of
                                         (Inl err, reqs2) \<Rightarrow>
                                           called2\<lparr>commits := [s1, s2, setIsRectifying False s2],
                                                   requests := reqs @ reqs2,
                                                   alerts := [rectifyAlert ver]\<rparr>
                                       | (Inr reScore, reqs2) \<Rightarrow>
                                           (case rescoreUpdater reScore (analysis s2) of
                                              Inl err \<Rightarrow>
                                                called2\<lparr>commits := [s1, s2],
                                                        requests := reqs @ reqs2,
                                                        uncaught := Some err\<rparr>
                                            | Inr a \<Rightarrow>
                                                called2\<lparr>commits :=
                                                          [s1, s2, setIsRectifying False (setAnalysis a s2)],
                                                        requests := reqs @ reqs2\<rparr>))))))))))"

section \<open>Operations one after another\<close>






section \<open>The text that is scored again, in words\<close>

text \<open>
  The text as the specification words it: the revised summary followed by, for each
  revised experience entry, its role and its bullets, with the line breaks of the first
  snapshot of the application. \<open>string_of\<close> and \<open>elements_of\<close> read a value that is a
  string or an array.
\<close>

definition string_of :: "jsval \<Rightarrow> string" where
  "string_of v = (case v of JStr s \<Rightarrow> s | _ \<Rightarrow> [])"

definition elements_of :: "jsval \<Rightarrow> jsval list" where
  "elements_of v = (case v of JArr xs \<Rightarrow> xs | _ \<Rightarrow> [])"

definition bulletLines :: "jsval \<Rightarrow> string" where
  "bulletLines e = join ''\<newline>'' (map string_of (elements_of (read_field e ''bullets'')))"

definition claimedEntryText :: "jsval \<Rightarrow> string" where
  "claimedEntryText e = string_of (read_field e ''role'') @ ''\<newline>'' @ bulletLines e"

definition claimedText :: "jsval \<Rightarrow> string" where
  "claimedText res =
     string_of (read_field res ''revisedSummary'') @ ''\<newline>\<newline>'' @
     join ''\<newline>'' (map claimedEntryText (elements_of (read_field res ''revisedExperience'')))"

text \<open>
  The text as amended: in the second snapshot the role of an entry is followed by
  \<^verbatim>\<open> at \<close> and the company.
\<close>

fun amendedEntryText :: "app_snapshot \<Rightarrow> jsval \<Rightarrow> string" where
  "amendedEntryText App_a e = claimedEntryText e"
| "amendedEntryText App_b e =
     string_of (read_field e ''role'') @ '' at '' @ string_of (read_field e ''company'') @
     ''\<newline>'' @ bulletLines e"

definition amendedText :: "app_snapshot \<Rightarrow> jsval \<Rightarrow> string" where
  "amendedText ver res =
     string_of (read_field res ''revisedSummary'') @ ''\<newline>\<newline>'' @
     join ''\<newline>'' (map (amendedEntryText ver) (elements_of (read_field res ''revisedExperience'')))"

section \<open>The three service snapshots side by side\<close>

text \<open>
  The snapshots differ in the instruction text, the label put before an inline text, the
  thinking budget, the credential check and the tail that reads the response. These
  functions name each difference, so that one statement can speak of all three.
\<close>

fun systemPrompt_of :: "service_snapshot \<Rightarrow> string option \<Rightarrow> string" where
  "systemPrompt_of Part_000 jd = systemPrompt_p0"
| "systemPrompt_of Part_001 jd = systemPrompt_p1 (isGeneralized jd)"
| "systemPrompt_of Part_002 jd = systemPrompt_p2"

fun contentLabel_of :: "service_snapshot \<Rightarrow> string" where
  "contentLabel_of Part_000 = ''RAW CONTENT:''"
| "contentLabel_of Part_001 = ''CV CONTENT:''"
| "contentLabel_of Part_002 = ''RAW CONTENT:''"

fun budget_of :: "service_snapshot \<Rightarrow> nat" where
  "budget_of Part_000 = 4000"
| "budget_of Part_001 = 8000"
| "budget_of Part_002 = 8000"

fun parse_response_of :: "service_snapshot \<Rightarrow> runtime \<Rightarrow> response \<Rightarrow> js_error + jsval" where
  "parse_response_of Part_000 = parse_response_p0"
| "parse_response_of Part_001 = parse_response_p1"
| "parse_response_of Part_002 = parse_response_p1"

fun rectifyPrompt_of ::
  "service_snapshot \<Rightarrow> runtime \<Rightarrow> string \<Rightarrow> jsval \<Rightarrow> js_error + string" where
  "rectifyPrompt_of Part_000 = rectifyPrompt_p0"
| "rectifyPrompt_of Part_001 = rectifyPrompt_p1"
| "rectifyPrompt_of Part_002 = rectifyPrompt_p2"

text \<open>The string that reaches \<^verbatim>\<open>JSON.parse\<close> when the response text is \<open>t\<close>.\<close>

fun parsed_text :: "service_snapshot \<Rightarrow> string \<Rightarrow> string" where
  "parsed_text Part_000 t = trim t"
| "parsed_text Part_001 t = (if trim t = [] then ''{}'' else trim t)"
| "parsed_text Part_002 t = (if trim t = [] then ''{}'' else trim t)"

text \<open>The request \<^verbatim>\<open>analyzeResume\<close> builds, and what a call makes of a request it issues.\<close>

definition analysis_request_of ::
  "service_snapshot \<Rightarrow> ResumeSource \<Rightarrow> string option \<Rightarrow> request" where
  "analysis_request_of p source jd =
     analysis_request (analysis_parts (systemPrompt_of p jd) (contentLabel_of p) source) (budget_of p)"

definition answer_of :: "service_snapshot \<Rightarrow> runtime \<Rightarrow> request \<Rightarrow> jsval io" where
  "answer_of p rt req =
     (case generateContent rt (API_KEY rt) req of
        Inl e \<Rightarrow> (Inl e, [req])
      | Inr resp \<Rightarrow> (parse_response_of p rt resp, [req]))"

section \<open>Concrete runs\<close>

text \<open>
  A runtime whose delegate gives one scripted answer to analysis requests and one to
  revision requests. Its built-ins are given at the arguments the runs below reach:
  \<^verbatim>\<open>JSON.parse\<close> on three texts, \<^verbatim>\<open>JSON.stringify\<close> on the empty array, the string
  conversion of a number on non-negative integers.
\<close>

definition analysis_text :: string where
  \<open>analysis_text = ''{"match_score":80,"mode":"specific"}''\<close>

definition analysis_value :: jsval where
  "analysis_value = JObj [(''match_score'', JNum 80), (''mode'', JStr ''specific'')]"

definition revision_text :: string where
  \<open>revision_text = ''{"revisedSummary":"New summary","revisedExperience":[{"company":"Acme","role":"Engineer","date":"2020-Present","bullets":["Built X","Led Y"]}]}''\<close>

definition revision_value :: jsval where
  "revision_value =
     JObj [(''revisedSummary'', JStr ''New summary''),
           (''revisedExperience'',
            JArr [JObj [(''company'', JStr ''Acme''), (''role'', JStr ''Engineer''),
                        (''date'', JStr ''2020-Present''),
                        (''bullets'', JArr [JStr ''Built X'', JStr ''Led Y''])]])]"

text \<open>The same revision result, with another company.\<close>

definition revision_elsewhere :: jsval where
  "revision_elsewhere =
     JObj [(''revisedSummary'', JStr ''New summary''),
           (''revisedExperience'',
            JArr [JObj [(''company'', JStr ''Globex''), (''role'', JStr ''Engineer''),
                        (''date'', JStr ''2020-Present''),
                        (''bullets'', JArr [JStr ''Built X'', JStr ''Led Y''])]])]"

definition scripted_runtime ::
  "string option \<Rightarrow> (js_error + response) \<Rightarrow> (js_error + response) \<Rightarrow> runtime" where
  "scripted_runtime key on_analysis on_rectify =
     \<lparr>API_KEY = key,
      GoogleGenAI = (\<lambda>k. None),
      generateContent =
        (\<lambda>k req. case contents req of Parts ps \<Rightarrow> on_analysis | Prompt p \<Rightarrow> on_rectify),
      JSON_parse =
        map_of [(''{}'', JObj []), (analysis_text, analysis_value),
                (revision_text, revision_value)],
      JSON_stringify = map_of [(JArr [], ''[]'')],
      Number_toString = (\<lambda>n. show_nat (nat \<lfloor>n\<rfloor>))\<rparr>"

definition replying :: "string option \<Rightarrow> js_error + response" where
  "replying t = Inr \<lparr>resp_text = t\<rparr>"

definition pdf_source :: ResumeSource where
  "pdf_source =
     \<lparr>src_text = None,
      src_file = Some \<lparr>data = ''JVBERi0xLjQ='', mimeType = ''application/pdf'', name = ''cv.pdf''\<rparr>\<rparr>"

definition stored_analysis :: jsval where
  "stored_analysis =
     JObj [(''match_score'', JNum 50), (''experience'', JArr []),
           (''missing_keywords'', JArr [JStr ''Kubernetes'']), (''hard_skill_gaps'', JArr []),
           (''impact_analysis'', JStr ''Old summary''), (''mode'', JStr ''generalized'')]"

definition stored_draft :: ResumeDraft where
  "stored_draft =
     \<lparr>personal_info = JUndefined, education = JUndefined, experience = JArr [],
      skills = JUndefined, certifications = JUndefined, summary = JStr ''Old summary''\<rparr>"

text \<open>The state after a first extraction that scored 50.\<close>

definition analyzed_state :: app_state where
  "analyzed_state =
     \<lparr>resumeSource = Some pdf_source, jobDescription = [], isAnalyzing = False,
      analysis = stored_analysis, prevScore = JNum 50, isRectifying = False,
      draft = Some stored_draft\<rparr>"

text \<open>The delegate answers every request well; it fails on analysis requests only.\<close>

definition healthy_runtime :: runtime where
  "healthy_runtime =
     scripted_runtime (Some ''key'') (replying (Some analysis_text)) (replying (Some revision_text))"

definition rescore_down_runtime :: runtime where
  "rescore_down_runtime =
     scripted_runtime (Some ''key'') (Inl (Error ''503'')) (replying (Some revision_text))"

text \<open>
  A runtime whose delegate answers analysis requests with a payload of the declared
  structure, and one whose delegate answers every request with \<^verbatim>\<open>null\<close>.
\<close>

definition full_analysis_text :: string where
  \<open>full_analysis_text = ''{"match_score":72,"personal_info":{"name":"Jane Doe","email":"jane@x.com","phone":"555-1234"},"education":[],"experience":[{"company":"Acme","role":"Software Engineer","date":"2020-Present","bullets":["Built X"]}],"skills":[],"certifications":[],"missing_keywords":["Kubernetes"],"hard_skill_gaps":[],"soft_skill_gaps":[],"formatting_issues":[],"impact_analysis":"Engineer who built X.","impact_score":60,"original_text":"Jane Doe","annotations":[],"mode":"generalized"}''\<close>

definition full_analysis_value :: jsval where
  "full_analysis_value =
     JObj [(''match_score'', JNum 72),
           (''personal_info'',
            JObj [(''name'', JStr ''Jane Doe''), (''email'', JStr ''jane@x.com''),
                  (''phone'', JStr ''555-1234'')]),
           (''education'', JArr []),
           (''experience'',
            JArr [JObj [(''company'', JStr ''Acme''), (''role'', JStr ''Software Engineer''),
                        (''date'', JStr ''2020-Present''), (''bullets'', JArr [JStr ''Built X''])]]),
           (''skills'', JArr []),
           (''certifications'', JArr []),
           (''missing_keywords'', JArr [JStr ''Kubernetes'']),
           (''hard_skill_gaps'', JArr []),
           (''soft_skill_gaps'', JArr []),
           (''formatting_issues'', JArr []),
           (''impact_analysis'', JStr ''Engineer who built X.''),
           (''impact_score'', JNum 60),
           (''original_text'', JStr ''Jane Doe''),
           (''annotations'', JArr []),
           (''mode'', JStr ''generalized'')]"

definition conforming_runtime :: runtime where
  "conforming_runtime =
     (scripted_runtime (Some ''key'') (replying (Some full_analysis_text))
        (replying (Some revision_text)))
     \<lparr>JSON_parse := map_of [(full_analysis_text, full_analysis_value),
                             (revision_text, revision_value)]\<rparr>"

definition null_runtime :: runtime where
  "null_runtime =
     (scripted_runtime (Some ''key'') (replying (Some ''null'')) (replying (Some ''null'')))
     \<lparr>JSON_parse := map_of [(''null'', JNull)]\<rparr>"

definition payload :: file_payload where
  "payload = \<lparr>data = ''JVBERi0xLjQ='', mimeType = ''application/pdf'', name = ''cv.pdf''\<rparr>"

section \<open>Lemmas about the service\<close>

lemmas scenario_defs =
  scripted_runtime_def replying_def pdf_source_def stored_analysis_def stored_draft_def
  analyzed_state_def analysis_text_def analysis_value_def revision_text_def revision_value_def
  healthy_runtime_def rescore_down_runtime_def full_analysis_text_def
  full_analysis_value_def conforming_runtime_def null_runtime_def payload_def
  revision_elsewhere_def

lemmas service_defs =
  analyzeResume_p0_def rectifyResume_p0_def analyzeResume_p1_def rectifyResume_p1_def
  analyzeResume_p2_def rectifyResume_p2_def parse_response_p0_def parse_response_p1_def
  analysis_request_def rectify_request_def keywordsList_def get_prop_def read_field_def
  nullish_def trim_def is_space_def geminiService_def analysis_request_of_def
  analysis_parts_def isGeneralized_def join_values_def rectifyPrompt_p0_def
  rectifyPrompt_p1_def rectifyPrompt_p2_def

lemmas setter_defs =
  setResumeSource_def setJobDescription_def setIsAnalyzing_def setAnalysis_def
  setPrevScore_def setIsRectifying_def setDraft_def

lemma scripted_runtime_sel:
  "API_KEY (scripted_runtime key a r) = key"
  "GoogleGenAI (scripted_runtime key a r) k = None"
  "generateContent (scripted_runtime key a r) k req =
     (case contents req of Parts ps \<Rightarrow> a | Prompt p \<Rightarrow> r)"
  by (simp_all add: scripted_runtime_def)

lemma analyzeResume_of_unfold:
  "analyzeResume_of p rt source jd =
     (if p = Part_000 \<and> \<not> truthy_str (API_KEY rt) then (Inl (Error ''Missing API Key''), [])
      else (case GoogleGenAI rt (API_KEY rt) of
              Some e \<Rightarrow> (Inl e, [])
            | None \<Rightarrow> answer_of p rt (analysis_request_of p source jd)))"
  by (cases p)
     (simp_all add: analyzeResume_p0_def analyzeResume_p1_def analyzeResume_p2_def
        analysis_request_of_def answer_of_def Let_def split: option.split sum.split)

lemma rectifyResume_of_unfold:
  "rectifyResume_of p rt a jd =
     (if p = Part_000 \<and> \<not> truthy_str (API_KEY rt) then (Inl (Error ''Missing API Key''), [])
      else (case GoogleGenAI rt (API_KEY rt) of
              Some e \<Rightarrow> (Inl e, [])
            | None \<Rightarrow>
                (case keywordsList rt a of
                   Inl e \<Rightarrow> (Inl e, [])
                 | Inr keywords \<Rightarrow>
                     (case rectifyPrompt_of p rt keywords a of
                        Inl e \<Rightarrow> (Inl e, [])
                      | Inr prompt \<Rightarrow>
                          answer_of p rt (rectify_request prompt (budget_of p))))))"
  by (cases p)
     (simp_all add: rectifyResume_p0_def rectifyResume_p1_def rectifyResume_p2_def
        answer_of_def Let_def split: option.split sum.split)

lemma snd_answer_of [simp]: "snd (answer_of p rt req) = [req]"
  by (simp add: answer_of_def split: sum.split)

lemma fst_answer_of:
  "fst (answer_of p rt req) =
     (case generateContent rt (API_KEY rt) req of
        Inl e \<Rightarrow> Inl e
      | Inr resp \<Rightarrow> parse_response_of p rt resp)"
  by (simp add: answer_of_def split: sum.split)

text \<open>
  A call issues at most one request, and a call that issued one returns what the
  response tail makes of the delegate's answer to it.
\<close>

lemma analyzeResume_of_issued:
  assumes "snd (analyzeResume_of p rt source jd) = [req]"
  shows "req = analysis_request_of p source jd \<and>
         analyzeResume_of p rt source jd = answer_of p rt req"
  using assms by (auto simp: analyzeResume_of_unfold split: if_splits option.splits)

lemma rectifyResume_of_issued:
  assumes "snd (rectifyResume_of p rt a jd) = [req]"
  shows "rectifyResume_of p rt a jd = answer_of p rt req"
  using assms by (auto simp: rectifyResume_of_unfold split: if_splits option.splits sum.splits)

lemma analyzeResume_of_reached:
  assumes "p = Part_000 \<longrightarrow> truthy_str (API_KEY rt)" and "GoogleGenAI rt (API_KEY rt) = None"
  shows "analyzeResume_of p rt source jd = answer_of p rt (analysis_request_of p source jd)"
  using assms by (auto simp: analyzeResume_of_unfold)

lemma analyzeResume_of_success_reached:
  assumes "fst (analyzeResume_of p rt source jd) = Inr res"
  shows "analyzeResume_of p rt source jd = answer_of p rt (analysis_request_of p source jd)"
proof -
  from assms have "p = Part_000 \<longrightarrow> truthy_str (API_KEY rt)" and "GoogleGenAI rt (API_KEY rt) = None"
    by (auto simp: analyzeResume_of_unfold split: if_splits option.splits)
  then show ?thesis by (rule analyzeResume_of_reached)
qed

lemma parse_response_of_text:
  assumes "resp_text resp = Some t" and "p = Part_000 \<longrightarrow> t \<noteq> []"
  shows "parse_response_of p rt resp =
           (case JSON_parse rt (parsed_text p t) of None \<Rightarrow> Inl SyntaxError | Some v \<Rightarrow> Inr v)"
  using assms by (cases p) (simp_all add: parse_response_p0_def parse_response_p1_def)

lemma parse_response_of_success:
  assumes "parse_response_of p rt resp = Inr res"
  shows "\<exists>t. resp_text resp = Some t \<and> JSON_parse rt (parsed_text p t) = Some res"
  using assms
  by (cases p)
     (auto simp: parse_response_p0_def parse_response_p1_def split: option.splits if_splits)

lemma parse_response_of_empty:
  "(p = Part_000 \<and> \<not> truthy_str (resp_text resp) \<longrightarrow>
      parse_response_of p rt resp = Inl (Error ''Empty response from AI'')) \<and>
   (p \<noteq> Part_000 \<and> resp_text resp = None \<longrightarrow> parse_response_of p rt resp = Inl TypeError) \<and>
   (p \<noteq> Part_000 \<and> resp_text resp = Some t \<and> trim t = [] \<longrightarrow>
      parse_response_of p rt resp =
        (case JSON_parse rt ''{}'' of None \<Rightarrow> Inl SyntaxError | Some v \<Rightarrow> Inr v))"
  by (cases p; cases "resp_text resp")
     (simp_all add: parse_response_p0_def parse_response_p1_def)

lemma analysis_request_of_indep:
  assumes "p = Part_001 \<longrightarrow> isGeneralized jd = isGeneralized jd'"
  shows "analysis_request_of p source jd = analysis_request_of p source jd'"
  using assms by (cases p) (simp_all add: analysis_request_of_def)

section \<open>Lemmas about the handlers\<close>

lemma read_field_update:
  "read_field (JObj (AList.update k v (own_props prev))) k' =
     (if k' = k then v else read_field prev k')"
  by (simp add: read_field_def update_conv')

text \<open>The handler once the revision call has succeeded and the text has been rendered.\<close>

lemma handleRectify_revised:
  assumes "truthy (analysis s)" and "draft s = Some d"
    and "rectifyResume svc (analysis s) (Some (jobDescription s)) = (Inr res, q1)"
    and "\<not> nullish res"
    and "fullContent ver rt (newDraft d res) = Inr txt"
  shows "handleRectify ver rt svc s =
     (let jd = Some (jobDescription s);
          source = \<lparr>src_text = Some txt, src_file = None\<rparr>;
          s1 = setIsRectifying True s;
          s2 = setDraft (Some (newDraft d res)) s1;
          called2 = nothing\<lparr>calls := [RectifyCall (analysis s) jd, AnalyzeCall source jd]\<rparr>
      in (case analyzeResume svc source jd of
            (Inl err, q2) \<Rightarrow>
              called2\<lparr>commits := [s1, s2, setIsRectifying False s2], requests := q1 @ q2,
                      alerts := [rectifyAlert ver]\<rparr>
          | (Inr reScore, q2) \<Rightarrow>
              (case rescoreUpdater reScore (analysis s) of
                 Inl err \<Rightarrow> called2\<lparr>commits := [s1, s2], requests := q1 @ q2, uncaught := Some err\<rparr>
               | Inr a \<Rightarrow>
                   called2\<lparr>commits := [s1, s2, setIsRectifying False (setAnalysis a s2)],
                           requests := q1 @ q2\<rparr>)))"
  using assms
  by (simp add: handleRectify_def Let_def nothing_def setter_defs split: prod.split sum.split)

lemma handleRectify_prevScore:
  "map prevScore (commits (handleRectify ver rt svc s)) =
     replicate (length (commits (handleRectify ver rt svc s))) (prevScore s)"
  by (simp add: handleRectify_def Let_def nothing_def setter_defs
        split: option.split prod.split sum.split)

section \<open>Lemmas about the rendered text\<close>

lemma toStrings_strings:
  "list_all (conforms SString) xs \<Longrightarrow> toStrings rt xs = Inr (map string_of xs)"
  by (induction xs) (auto simp: string_of_def split: jsval.splits)

lemma fullContent_nonempty: "fullContent ver rt dr = Inr txt \<Longrightarrow> txt \<noteq> []"
  by (auto simp: fullContent_def split: sum.splits jsval.splits)

lemma renderEntry_conforming:
  assumes "conforms (SObject
             [(''company'', SString), (''role'', SString), (''date'', SString),
              (''bullets'', SArray SString)]
             [''company'', ''role'', ''bullets'']) e"
  shows "renderEntry ver rt e = Inr (amendedEntryText ver e)"
proof -
  from assms obtain kvs where e: "e = JObj kvs"
    by (cases e) simp_all
  from assms e obtain c r bs where
    fields: "map_of kvs ''company'' = Some (JStr c)" "map_of kvs ''role'' = Some (JStr r)"
      "map_of kvs ''bullets'' = Some (JArr bs)"
    and strings: "list_all (conforms SString) bs"
    by (auto split: option.splits jsval.splits)
  from strings have "toStrings rt bs = Inr (map string_of bs)"
    by (rule toStrings_strings)
  with e fields show ?thesis
    by (cases ver)
       (simp_all add: get_prop_def nullish_def read_field_def join_values_def
          claimedEntryText_def bulletLines_def string_of_def elements_of_def)
qed

lemma map_renderEntry_conforming:
  assumes "list_all (conforms (SObject
             [(''company'', SString), (''role'', SString), (''date'', SString),
              (''bullets'', SArray SString)]
             [''company'', ''role'', ''bullets''])) es"
  shows "map_throwing (renderEntry ver rt) es = Inr (map (amendedEntryText ver) es)"
  using assms by (induction es) (simp_all add: renderEntry_conforming)

lemma fullContent_conforming:
  assumes "conforms RECTIFY_SCHEMA res"
  shows "fullContent ver rt (newDraft d res) = Inr (amendedText ver res)"
proof -
  from assms obtain kvs where res: "res = JObj kvs"
    by (cases res) (simp_all add: RECTIFY_SCHEMA_def)
  from assms res obtain sm es where
    fields: "map_of kvs ''revisedSummary'' = Some (JStr sm)"
      "map_of kvs ''revisedExperience'' = Some (JArr es)"
    and entries: "list_all (conforms (SObject
             [(''company'', SString), (''role'', SString), (''date'', SString),
              (''bullets'', SArray SString)]
             [''company'', ''role'', ''bullets''])) es"
    by (auto simp: RECTIFY_SCHEMA_def split: option.splits jsval.splits)
  from entries have "map_throwing (renderEntry ver rt) es = Inr (map (amendedEntryText ver) es)"
    by (rule map_renderEntry_conforming)
  with res fields show ?thesis
    by (simp add: fullContent_def newDraft_def read_field_def amendedText_def string_of_def
          elements_of_def)
qed

section \<open>Lemmas about operations one after another\<close>






section \<open>Lemmas about the concrete runs\<close>




section \<open>The claims\<close>

subsection \<open>The extraction service\<close>

text \<open>
  Claim C1, as amended. The claim says that the mode of the returned result is the
  classification computed locally from the job description. The service never writes
  that classification into its result: whenever a call succeeds, the value returned is
  the one parsed from the text of the delegate's response, so its mode is the mode of
  that payload. In \<^verbatim>\<open>part_000\<close> and \<^verbatim>\<open>part_002\<close> the job description has no effect on
  the call at all; in \<^verbatim>\<open>part_001\<close> two job descriptions with the same classification
  give the same call.
\<close>

theorem analyzeResume_mode_from_payload:
  "(fst (analyzeResume_of p rt source jd) = Inr res \<and>
    generateContent rt (API_KEY rt) (analysis_request_of p source jd) = Inr resp \<and>
    resp_text resp = Some t \<longrightarrow>
      snd (analyzeResume_of p rt source jd) = [analysis_request_of p source jd] \<and>
      JSON_parse rt (parsed_text p t) = Some res) \<and>
   ((p = Part_001 \<longrightarrow> isGeneralized jd = isGeneralized jd') \<longrightarrow>
      analyzeResume_of p rt source jd = analyzeResume_of p rt source jd')"
proof (intro conjI impI)
  assume h: "fst (analyzeResume_of p rt source jd) = Inr res \<and>
    generateContent rt (API_KEY rt) (analysis_request_of p source jd) = Inr resp \<and>
    resp_text resp = Some t"
  then have "fst (analyzeResume_of p rt source jd) = Inr res"
    by simp
  then have eq: "analyzeResume_of p rt source jd = answer_of p rt (analysis_request_of p source jd)"
    by (rule analyzeResume_of_success_reached)
  then show "snd (analyzeResume_of p rt source jd) = [analysis_request_of p source jd]"
    by simp
  from h eq have "parse_response_of p rt resp = Inr res"
    by (auto simp: fst_answer_of)
  from parse_response_of_success [OF this] h
  show "JSON_parse rt (parsed_text p t) = Some res"
    by auto
next
  assume "p = Part_001 \<longrightarrow> isGeneralized jd = isGeneralized jd'"
  then have eq: "analysis_request_of p source jd = analysis_request_of p source jd'"
    by (rule analysis_request_of_indep)
  show "analyzeResume_of p rt source jd = analyzeResume_of p rt source jd'"
    unfolding analyzeResume_of_unfold eq by (rule refl)
qed

text \<open>
  The theorem at a run of \<^verbatim>\<open>part_001\<close>: no job description against a blank one, the
  delegate answering with a payload whose mode is \<^verbatim>\<open>specific\<close>.
\<close>

theorem analyzeResume_mode_from_payload_witness:
  "fst (analyzeResume_of Part_001 healthy_runtime pdf_source None) = Inr analysis_value \<and>
   generateContent healthy_runtime (API_KEY healthy_runtime)
     (analysis_request_of Part_001 pdf_source None) = Inr \<lparr>resp_text = Some analysis_text\<rparr> \<and>
   isGeneralized None = isGeneralized (Some ''  '') \<and>
   JSON_parse healthy_runtime (parsed_text Part_001 analysis_text) = Some analysis_value \<and>
   analyzeResume_of Part_001 healthy_runtime pdf_source None =
     analyzeResume_of Part_001 healthy_runtime pdf_source (Some ''  '')"
  using analyzeResume_mode_from_payload
    [of Part_001 healthy_runtime pdf_source None analysis_value
        "\<lparr>resp_text = Some analysis_text\<rparr>" analysis_text "Some ''  ''"]
  by (simp add: scenario_defs service_defs Let_def)

text \<open>
  The claim as stated fails in each snapshot: with no job description the local
  classification is "generalized", and the result returned has the mode \<^verbatim>\<open>specific\<close>
  that the delegate sent.
\<close>

theorem analyzeResume_mode_not_local:
  "isGeneralized None \<and>
   fst (analyzeResume_of Part_000 healthy_runtime pdf_source None) = Inr analysis_value \<and>
   fst (analyzeResume_of Part_001 healthy_runtime pdf_source None) = Inr analysis_value \<and>
   fst (analyzeResume_of Part_002 healthy_runtime pdf_source None) = Inr analysis_value \<and>
   read_field analysis_value ''mode'' = JStr ''specific''"
  by (simp add: scenario_defs service_defs Let_def)

text \<open>
  Claim C4, as amended. The claim says that a payload without the declared structure
  makes \<^verbatim>\<open>analyzeResume\<close> fail. No snapshot checks the structure: when the delegate
  answers the request with a text (a non-empty one in \<^verbatim>\<open>part_000\<close>), the call fails
  only if \<^verbatim>\<open>JSON.parse\<close> throws on it, and otherwise returns the parsed value as it is.
\<close>

theorem analyzeResume_returns_unvalidated_parse:
  assumes "snd (analyzeResume_of p rt source jd) = [req]"
    and "generateContent rt (API_KEY rt) req = Inr resp"
    and "resp_text resp = Some t"
    and "p = Part_000 \<longrightarrow> t \<noteq> []"
  shows "fst (analyzeResume_of p rt source jd) =
           (case JSON_parse rt (parsed_text p t) of None \<Rightarrow> Inl SyntaxError | Some v \<Rightarrow> Inr v)"
proof -
  from analyzeResume_of_issued [OF assms(1)]
  have "analyzeResume_of p rt source jd = answer_of p rt req" by simp
  then have "fst (analyzeResume_of p rt source jd) = parse_response_of p rt resp"
    using assms(2) by (simp add: fst_answer_of)
  then show ?thesis
    using parse_response_of_text [OF assms(3,4)] by simp
qed

text \<open>The theorem at a run of \<^verbatim>\<open>part_000\<close> whose delegate sends the empty object.\<close>

theorem analyzeResume_returns_unvalidated_parse_witness:
  "snd (analyzeResume_of Part_000
          (scripted_runtime (Some ''key'') (replying (Some ''{}'')) (Inl TypeError))
          pdf_source None) = [analysis_request_of Part_000 pdf_source None] \<and>
   fst (analyzeResume_of Part_000
          (scripted_runtime (Some ''key'') (replying (Some ''{}'')) (Inl TypeError))
          pdf_source None) = Inr (JObj [])"
proof -
  let ?rt = "scripted_runtime (Some ''key'') (replying (Some ''{}'')) (Inl TypeError)"
  have issued: "snd (analyzeResume_of Part_000 ?rt pdf_source None) =
                  [analysis_request_of Part_000 pdf_source None]"
    by (simp add: scenario_defs service_defs Let_def)
  have answered: "generateContent ?rt (API_KEY ?rt) (analysis_request_of Part_000 pdf_source None) =
                    Inr \<lparr>resp_text = Some ''{}''\<rparr>"
    by (simp add: scenario_defs service_defs)
  from analyzeResume_returns_unvalidated_parse [OF issued answered]
  have "fst (analyzeResume_of Part_000 ?rt pdf_source None) =
          (case JSON_parse ?rt (parsed_text Part_000 ''{}'') of
             None \<Rightarrow> Inl SyntaxError | Some v \<Rightarrow> Inr v)"
    by simp
  then have "fst (analyzeResume_of Part_000 ?rt pdf_source None) = Inr (JObj [])"
    by (simp add: scenario_defs trim_def is_space_def)
  with issued show ?thesis by simp
qed

text \<open>
  The claim as stated fails in each snapshot: the empty object has none of the required
  fields, and it is returned as the result.
\<close>

theorem analyzeResume_returns_nonconforming:
  "\<not> conforms ANALYSIS_SCHEMA (JObj []) \<and>
   fst (analyzeResume_of Part_000
          (scripted_runtime (Some ''key'') (replying (Some ''{}'')) (Inl TypeError))
          pdf_source None) = Inr (JObj []) \<and>
   fst (analyzeResume_of Part_001
          (scripted_runtime (Some ''key'') (replying (Some ''{}'')) (Inl TypeError))
          pdf_source None) = Inr (JObj []) \<and>
   fst (analyzeResume_of Part_002
          (scripted_runtime (Some ''key'') (replying (Some ''{}'')) (Inl TypeError))
          pdf_source None) = Inr (JObj [])"
  by (simp add: scenario_defs service_defs Let_def ANALYSIS_SCHEMA_def)

text \<open>
  Claim C5, as amended. The claim says that a response without text makes both calls
  fail with the empty-response error. That is what \<^verbatim>\<open>part_000\<close> does, for an absent and
  for an empty text. In \<^verbatim>\<open>part_001\<close> and \<^verbatim>\<open>part_002\<close> an absent text makes the call
  fail with a TypeError, and a text that is empty after trimming is read as \<^verbatim>\<open>{}\<close>: the
  call returns what \<^verbatim>\<open>JSON.parse\<close> gives for it.
\<close>

theorem empty_response_by_snapshot:
  assumes "out = analyzeResume_of p rt source jd \<or> out = rectifyResume_of p rt a jd"
    and "snd out = [req]"
    and "generateContent rt (API_KEY rt) req = Inr resp"
  shows "(p = Part_000 \<and> \<not> truthy_str (resp_text resp) \<longrightarrow>
            fst out = Inl (Error ''Empty response from AI'')) \<and>
         (p \<noteq> Part_000 \<and> resp_text resp = None \<longrightarrow> fst out = Inl TypeError) \<and>
         (p \<noteq> Part_000 \<and> resp_text resp = Some t \<and> trim t = [] \<longrightarrow>
            fst out = (case JSON_parse rt ''{}'' of None \<Rightarrow> Inl SyntaxError | Some v \<Rightarrow> Inr v))"
proof -
  from assms(1,2) have "out = answer_of p rt req"
    using analyzeResume_of_issued rectifyResume_of_issued by metis
  then have "fst out = parse_response_of p rt resp"
    using assms(3) by (simp add: fst_answer_of)
  then show ?thesis
    using parse_response_of_empty [of p resp rt t] by simp
qed

text \<open>
  The theorem at three runs: \<^verbatim>\<open>part_000\<close> and \<^verbatim>\<open>part_001\<close> with a response that has
  no text, \<^verbatim>\<open>part_002\<close> revising against a response of two spaces.
\<close>

theorem empty_response_by_snapshot_witness:
  "fst (analyzeResume_of Part_000
          (scripted_runtime (Some ''key'') (replying None) (replying None)) pdf_source None) =
     Inl (Error ''Empty response from AI'') \<and>
   fst (analyzeResume_of Part_001
          (scripted_runtime (Some ''key'') (replying None) (replying None)) pdf_source None) =
     Inl TypeError \<and>
   fst (rectifyResume_of Part_002
          (scripted_runtime (Some ''key'') (replying None) (replying (Some ''  '')))
          stored_analysis None) = Inr (JObj [])"
proof -
  let ?silent = "scripted_runtime (Some ''key'') (replying None) (replying None)"
  let ?blank = "scripted_runtime (Some ''key'') (replying None) (replying (Some ''  ''))"
  let ?req = "\<lambda>p. analysis_request_of p pdf_source None"
  obtain prompt where
    prompt: "rectifyPrompt_of Part_002 ?blank ''Kubernetes'' stored_analysis = Inr prompt"
    by (simp add: rectifyPrompt_p2_def scenario_defs read_field_def)
  let ?rreq = "rectify_request prompt 8000"
  have i0: "snd (analyzeResume_of Part_000 ?silent pdf_source None) = [?req Part_000]"
    and i1: "snd (analyzeResume_of Part_001 ?silent pdf_source None) = [?req Part_001]"
    by (simp_all add: scenario_defs service_defs Let_def)
  have kw: "keywordsList ?blank stored_analysis = Inr ''Kubernetes''"
    by (simp add: scenario_defs service_defs)
  have i2: "snd (rectifyResume_of Part_002 ?blank stored_analysis None) = [?rreq]"
    using prompt kw
    by (simp add: rectifyResume_p2_def scripted_runtime_sel rectify_request_def replying_def)
  have a0: "generateContent ?silent (API_KEY ?silent) (?req Part_000) = Inr \<lparr>resp_text = None\<rparr>"
    and a1: "generateContent ?silent (API_KEY ?silent) (?req Part_001) = Inr \<lparr>resp_text = None\<rparr>"
    by (simp_all add: scenario_defs service_defs)
  have a2: "generateContent ?blank (API_KEY ?blank) ?rreq = Inr \<lparr>resp_text = Some ''  ''\<rparr>"
    by (simp add: scenario_defs service_defs)
  have "fst (analyzeResume_of Part_000 ?silent pdf_source None) =
          Inl (Error ''Empty response from AI'')"
    using empty_response_by_snapshot [OF disjI1 [OF refl] i0 a0] by simp
  moreover have "fst (analyzeResume_of Part_001 ?silent pdf_source None) = Inl TypeError"
    using empty_response_by_snapshot [OF disjI1 [OF refl] i1 a1] by simp
  moreover have "fst (rectifyResume_of Part_002 ?blank stored_analysis None) = Inr (JObj [])"
    using empty_response_by_snapshot [OF disjI2 [OF refl] i2 a2, of "''  ''"]
    by (simp add: trim_def is_space_def scenario_defs)
  ultimately show ?thesis by simp
qed

text \<open>
  The claim as stated fails in \<^verbatim>\<open>part_001\<close> and \<^verbatim>\<open>part_002\<close>: the delegate's response
  has an empty text, and the call returns a value, the empty object.
\<close>

theorem empty_text_returns_value:
  "generateContent (scripted_runtime (Some ''key'') (replying (Some [])) (replying (Some [])))
     (Some ''key'') (analysis_request_of Part_001 pdf_source None) = Inr \<lparr>resp_text = Some []\<rparr> \<and>
   \<not> truthy_str (Some []) \<and>
   fst (analyzeResume_of Part_001
          (scripted_runtime (Some ''key'') (replying (Some [])) (replying (Some [])))
          pdf_source None) = Inr (JObj []) \<and>
   fst (analyzeResume_of Part_002
          (scripted_runtime (Some ''key'') (replying (Some [])) (replying (Some [])))
          pdf_source None) = Inr (JObj []) \<and>
   fst (rectifyResume_of Part_001
          (scripted_runtime (Some ''key'') (replying (Some [])) (replying (Some [])))
          stored_analysis None) = Inr (JObj [])"
  by (simp add: scenario_defs service_defs Let_def)

text \<open>
  Claim C6, as amended. The claim says that every call made without a credential fails
  with the missing-credential error before any request. \<^verbatim>\<open>part_000\<close> does so, for an
  absent and for an empty key, as the first step of both functions. \<^verbatim>\<open>part_001\<close> and
  \<^verbatim>\<open>part_002\<close> have no check of their own: they hand the key to the client constructor
  and fail without a request when the constructor throws. When it does not,
  \<^verbatim>\<open>analyzeResume\<close> issues its request; \<^verbatim>\<open>rectifyResume\<close> first builds the keyword
  list and the prompt from the analysis, fails without a request when one of them cannot
  be built, and issues its request when both can.
\<close>

theorem missing_key_by_snapshot:
  "(\<not> truthy_str (API_KEY rt) \<longrightarrow>
      analyzeResume_of Part_000 rt source jd = (Inl (Error ''Missing API Key''), []) \<and>
      rectifyResume_of Part_000 rt a jd = (Inl (Error ''Missing API Key''), [])) \<and>
   (p \<noteq> Part_000 \<longrightarrow>
      (case GoogleGenAI rt (API_KEY rt) of
         Some e \<Rightarrow>
           analyzeResume_of p rt source jd = (Inl e, []) \<and>
           rectifyResume_of p rt a jd = (Inl e, [])
       | None \<Rightarrow>
           snd (analyzeResume_of p rt source jd) = [analysis_request_of p source jd] \<and>
           (case keywordsList rt a of
              Inl e \<Rightarrow> rectifyResume_of p rt a jd = (Inl e, [])
            | Inr keywords \<Rightarrow>
                (case rectifyPrompt_of p rt keywords a of
                   Inl e \<Rightarrow> rectifyResume_of p rt a jd = (Inl e, [])
                 | Inr prompt \<Rightarrow>
                     snd (rectifyResume_of p rt a jd) =
                       [rectify_request prompt (budget_of p)]))))"
proof (intro conjI impI)
  assume "\<not> truthy_str (API_KEY rt)"
  then show "analyzeResume_of Part_000 rt source jd = (Inl (Error ''Missing API Key''), [])"
    and "rectifyResume_of Part_000 rt a jd = (Inl (Error ''Missing API Key''), [])"
    by (simp_all add: analyzeResume_p0_def rectifyResume_p0_def)
next
  assume "p \<noteq> Part_000"
  then show "case GoogleGenAI rt (API_KEY rt) of
         Some e \<Rightarrow>
           analyzeResume_of p rt source jd = (Inl e, []) \<and>
           rectifyResume_of p rt a jd = (Inl e, [])
       | None \<Rightarrow>
           snd (analyzeResume_of p rt source jd) = [analysis_request_of p source jd] \<and>
           (case keywordsList rt a of
              Inl e \<Rightarrow> rectifyResume_of p rt a jd = (Inl e, [])
            | Inr keywords \<Rightarrow>
                (case rectifyPrompt_of p rt keywords a of
                   Inl e \<Rightarrow> rectifyResume_of p rt a jd = (Inl e, [])
                 | Inr prompt \<Rightarrow>
                     snd (rectifyResume_of p rt a jd) =
                       [rectify_request prompt (budget_of p)]))"
    by (simp add: analyzeResume_of_unfold rectifyResume_of_unfold
          split: option.split sum.split)
qed

text \<open>
  The theorem at a runtime without a key: both functions of \<^verbatim>\<open>part_000\<close>, the
  analysis of \<^verbatim>\<open>part_002\<close>, and the revision of \<^verbatim>\<open>part_002\<close> on an analysis without
  keyword lists and on one that has them.
\<close>

theorem missing_key_by_snapshot_witness:
  "\<not> truthy_str (API_KEY (scripted_runtime None (replying (Some ''{}'')) (replying (Some ''{}'')))) \<and>
   analyzeResume_of Part_000
     (scripted_runtime None (replying (Some ''{}'')) (replying (Some ''{}''))) pdf_source None =
     (Inl (Error ''Missing API Key''), []) \<and>
   rectifyResume_of Part_000
     (scripted_runtime None (replying (Some ''{}'')) (replying (Some ''{}''))) stored_analysis None =
     (Inl (Error ''Missing API Key''), []) \<and>
   Part_002 \<noteq> Part_000 \<and>
   snd (analyzeResume_of Part_002
          (scripted_runtime None (replying (Some ''{}'')) (replying (Some ''{}''))) pdf_source None) =
     [analysis_request_of Part_002 pdf_source None] \<and>
   rectifyResume_of Part_002
     (scripted_runtime None (replying (Some ''{}'')) (replying (Some ''{}''))) (JObj []) None =
     (Inl TypeError, []) \<and>
   length (snd (rectifyResume_of Part_002
                  (scripted_runtime None (replying (Some ''{}'')) (replying (Some ''{}'')))
                  stored_analysis None)) = 1"
proof -
  let ?rt = "scripted_runtime None (replying (Some ''{}'')) (replying (Some ''{}''))"
  have key: "\<not> truthy_str (API_KEY ?rt)" and ctor: "GoogleGenAI ?rt (API_KEY ?rt) = None"
    by (simp_all add: scripted_runtime_sel)
  have none: "keywordsList ?rt (JObj []) = Inl TypeError"
    by (simp add: keywordsList_def get_prop_def nullish_def read_field_def)
  have some: "keywordsList ?rt stored_analysis = Inr ''Kubernetes''"
    by (simp add: scenario_defs service_defs)
  obtain prompt where
    prompt: "rectifyPrompt_of Part_002 ?rt ''Kubernetes'' stored_analysis = Inr prompt"
    by (simp add: rectifyPrompt_p2_def scenario_defs read_field_def)
  from missing_key_by_snapshot [of ?rt pdf_source None stored_analysis Part_002] key ctor some prompt
  have p0: "analyzeResume_of Part_000 ?rt pdf_source None = (Inl (Error ''Missing API Key''), [])"
    and r0: "rectifyResume_of Part_000 ?rt stored_analysis None = (Inl (Error ''Missing API Key''), [])"
    and a2: "snd (analyzeResume_of Part_002 ?rt pdf_source None) =
               [analysis_request_of Part_002 pdf_source None]"
    and r2: "snd (rectifyResume_of Part_002 ?rt stored_analysis None) =
               [rectify_request prompt (budget_of Part_002)]"
    by simp_all
  from missing_key_by_snapshot [of ?rt pdf_source None "JObj []" Part_002] ctor none
  have r2': "rectifyResume_of Part_002 ?rt (JObj []) None = (Inl TypeError, [])"
    by simp
  from key p0 r0 a2 r2' r2 show ?thesis
    by simp
qed

text \<open>
  The claim as stated fails in \<^verbatim>\<open>part_001\<close> and \<^verbatim>\<open>part_002\<close>: with an empty key, which
  \<^verbatim>\<open>part_000\<close> counts as missing, and a client constructor that accepts it, the request
  is issued and the call returns a value.
\<close>

theorem missing_key_request_issued:
  "\<not> truthy_str (API_KEY (scripted_runtime (Some []) (replying (Some ''{}'')) (replying (Some ''{}'')))) \<and>
   length (snd (analyzeResume_of Part_001
                  (scripted_runtime (Some []) (replying (Some ''{}'')) (replying (Some ''{}'')))
                  pdf_source None)) = 1 \<and>
   fst (analyzeResume_of Part_001
          (scripted_runtime (Some []) (replying (Some ''{}'')) (replying (Some ''{}'')))
          pdf_source None) = Inr (JObj []) \<and>
   length (snd (rectifyResume_of Part_002
                  (scripted_runtime (Some []) (replying (Some ''{}'')) (replying (Some ''{}'')))
                  stored_analysis None)) = 1 \<and>
   fst (rectifyResume_of Part_002
          (scripted_runtime (Some []) (replying (Some ''{}'')) (replying (Some ''{}'')))
          stored_analysis None) = Inr (JObj [])"
  by (simp add: scenario_defs service_defs Let_def)



subsection \<open>The revision workflow\<close>

text \<open>
  Claim C2. Once the revision call has succeeded and its result has been rendered into
  the text to score again, the draft the handler leaves holds the revised summary and
  experience whatever the second call does; and when that call fails, the stored
  analysis, hence its \<^verbatim>\<open>match_score\<close>, is the one from before.
\<close>

theorem handleRectify_rescore_failure_keeps_draft:
  assumes "truthy (analysis s)" and "draft s = Some d"
    and "rectifyResume svc (analysis s) (Some (jobDescription s)) = (Inr res, q1)"
    and "\<not> nullish res"
    and "fullContent ver rt (newDraft d res) = Inr txt"
  shows "draft (after s (handleRectify ver rt svc s)) =
           Some (d\<lparr>summary := read_field res ''revisedSummary'',
                   experience := read_field res ''revisedExperience''\<rparr>) \<and>
         (analyzeResume svc \<lparr>src_text = Some txt, src_file = None\<rparr> (Some (jobDescription s)) =
            (Inl err, q2) \<longrightarrow>
            analysis (after s (handleRectify ver rt svc s)) = analysis s \<and>
            read_field (analysis (after s (handleRectify ver rt svc s))) ''match_score'' =
              read_field (analysis s) ''match_score'' \<and>
            uncaught (handleRectify ver rt svc s) = None)"
  unfolding handleRectify_revised [OF assms]
  by (simp add: Let_def after_def nothing_def setter_defs newDraft_def split: prod.split sum.split)

text \<open>
  The theorem at a run of the first snapshot over \<^verbatim>\<open>part_000\<close>: the revision is
  answered, the second analysis request is refused.
\<close>

theorem handleRectify_rescore_failure_keeps_draft_witness:
  "truthy (analysis analyzed_state) \<and>
   draft analyzed_state = Some stored_draft \<and>
   fst (rectifyResume (geminiService Part_000 rescore_down_runtime) (analysis analyzed_state)
          (Some (jobDescription analyzed_state))) = Inr revision_value \<and>
   \<not> nullish revision_value \<and>
   fullContent App_a rescore_down_runtime (newDraft stored_draft revision_value) =
     Inr ''New summary\<newline>\<newline>Engineer\<newline>Built X\<newline>Led Y'' \<and>
   fst (analyzeResume (geminiService Part_000 rescore_down_runtime)
          \<lparr>src_text = Some ''New summary\<newline>\<newline>Engineer\<newline>Built X\<newline>Led Y'', src_file = None\<rparr>
          (Some (jobDescription analyzed_state))) = Inl (Error ''503'') \<and>
   draft (after analyzed_state
            (handleRectify App_a rescore_down_runtime
               (geminiService Part_000 rescore_down_runtime) analyzed_state)) =
     Some (stored_draft\<lparr>summary := JStr ''New summary'',
             experience := read_field revision_value ''revisedExperience''\<rparr>) \<and>
   read_field (analysis (after analyzed_state
            (handleRectify App_a rescore_down_runtime
               (geminiService Part_000 rescore_down_runtime) analyzed_state))) ''match_score'' =
     JNum 50"
proof -
  let ?rt = rescore_down_runtime
  let ?svc = "geminiService Part_000 ?rt"
  let ?s = analyzed_state
  let ?txt = "''New summary\<newline>\<newline>Engineer\<newline>Built X\<newline>Led Y''"
  have h1: "truthy (analysis ?s)" and h2: "draft ?s = Some stored_draft"
    by (simp_all add: scenario_defs)
  have r: "fst (rectifyResume ?svc (analysis ?s) (Some (jobDescription ?s))) = Inr revision_value"
    by (simp add: scenario_defs service_defs)
  then have h3: "rectifyResume ?svc (analysis ?s) (Some (jobDescription ?s)) =
                   (Inr revision_value, snd (rectifyResume ?svc (analysis ?s) (Some (jobDescription ?s))))"
    by (metis prod.collapse)
  have h4: "\<not> nullish revision_value"
    by (simp add: scenario_defs nullish_def)
  have h5: "fullContent App_a ?rt (newDraft stored_draft revision_value) = Inr ?txt"
    by (simp add: scenario_defs fullContent_def newDraft_def read_field_def get_prop_def
          nullish_def join_values_def)
  have f: "fst (analyzeResume ?svc \<lparr>src_text = Some ?txt, src_file = None\<rparr>
                  (Some (jobDescription ?s))) = Inl (Error ''503'')"
    by (simp add: scenario_defs service_defs Let_def)
  then have h6: "analyzeResume ?svc \<lparr>src_text = Some ?txt, src_file = None\<rparr>
                   (Some (jobDescription ?s)) =
                 (Inl (Error ''503''),
                  snd (analyzeResume ?svc \<lparr>src_text = Some ?txt, src_file = None\<rparr>
                         (Some (jobDescription ?s))))"
    by (metis prod.collapse)
  from handleRectify_rescore_failure_keeps_draft [OF h1 h2 h3 h4 h5] h6
  have "draft (after ?s (handleRectify App_a ?rt ?svc ?s)) =
          Some (stored_draft\<lparr>summary := read_field revision_value ''revisedSummary'',
                  experience := read_field revision_value ''revisedExperience''\<rparr>)"
    and "read_field (analysis (after ?s (handleRectify App_a ?rt ?svc ?s))) ''match_score'' =
           read_field (analysis ?s) ''match_score''"
    by blast+
  moreover have "read_field revision_value ''revisedSummary'' = JStr ''New summary''"
    and "read_field (analysis ?s) ''match_score'' = JNum 50"
    by (simp_all add: scenario_defs read_field_def)
  ultimately show ?thesis
    using h1 h2 r h4 h5 f by simp
qed

text \<open>
  Claim C3. After a complete revision cycle (the revision call and the second analysis
  call both succeed, with results that are not \<^verbatim>\<open>null\<close>), every field of the stored
  analysis other than \<^verbatim>\<open>match_score\<close> reads as it did before, and \<^verbatim>\<open>match_score\<close> reads
  as in the result of the second analysis call.
\<close>

theorem handleRectify_overwrites_only_match_score:
  assumes "truthy (analysis s)" and "draft s = Some d"
    and "rectifyResume svc (analysis s) (Some (jobDescription s)) = (Inr res, q1)"
    and "\<not> nullish res"
    and "fullContent ver rt (newDraft d res) = Inr txt"
    and "analyzeResume svc \<lparr>src_text = Some txt, src_file = None\<rparr> (Some (jobDescription s)) =
           (Inr reScore, q2)"
    and "\<not> nullish reScore"
  shows "(\<forall>k. k \<noteq> ''match_score'' \<longrightarrow>
            read_field (analysis (after s (handleRectify ver rt svc s))) k =
              read_field (analysis s) k) \<and>
         read_field (analysis (after s (handleRectify ver rt svc s))) ''match_score'' =
           read_field reScore ''match_score'' \<and>
         uncaught (handleRectify ver rt svc s) = None"
  unfolding handleRectify_revised [OF assms(1-5)]
  using assms(1,6,7)
  by (simp add: Let_def after_def nothing_def setter_defs rescoreUpdater_def get_prop_def
        read_field_update)

text \<open>
  The theorem at a run of the second snapshot over \<^verbatim>\<open>part_000\<close>: the stored analysis
  has the mode \<^verbatim>\<open>generalized\<close> and the score 50, the second analysis answers with the
  mode \<^verbatim>\<open>specific\<close> and the score 80.
\<close>

theorem handleRectify_overwrites_only_match_score_witness:
  "truthy (analysis analyzed_state) \<and>
   draft analyzed_state = Some stored_draft \<and>
   fst (rectifyResume (geminiService Part_000 healthy_runtime) (analysis analyzed_state)
          (Some (jobDescription analyzed_state))) = Inr revision_value \<and>
   \<not> nullish revision_value \<and>
   fullContent App_b healthy_runtime (newDraft stored_draft revision_value) =
     Inr ''New summary\<newline>\<newline>Engineer at Acme\<newline>Built X\<newline>Led Y'' \<and>
   fst (analyzeResume (geminiService Part_000 healthy_runtime)
          \<lparr>src_text = Some ''New summary\<newline>\<newline>Engineer at Acme\<newline>Built X\<newline>Led Y'', src_file = None\<rparr>
          (Some (jobDescription analyzed_state))) = Inr analysis_value \<and>
   \<not> nullish analysis_value \<and>
   ''mode'' \<noteq> ''match_score'' \<and>
   read_field (analysis (after analyzed_state
      (handleRectify App_b healthy_runtime (geminiService Part_000 healthy_runtime)
         analyzed_state))) ''mode'' = JStr ''generalized'' \<and>
   read_field (analysis (after analyzed_state
      (handleRectify App_b healthy_runtime (geminiService Part_000 healthy_runtime)
         analyzed_state))) ''match_score'' = JNum 80"
proof -
  let ?rt = healthy_runtime
  let ?svc = "geminiService Part_000 ?rt"
  let ?s = analyzed_state
  let ?txt = "''New summary\<newline>\<newline>Engineer at Acme\<newline>Built X\<newline>Led Y''"
  have h1: "truthy (analysis ?s)" and h2: "draft ?s = Some stored_draft"
    by (simp_all add: scenario_defs)
  have r: "fst (rectifyResume ?svc (analysis ?s) (Some (jobDescription ?s))) = Inr revision_value"
    by (simp add: scenario_defs service_defs)
  then have h3: "rectifyResume ?svc (analysis ?s) (Some (jobDescription ?s)) =
                   (Inr revision_value, snd (rectifyResume ?svc (analysis ?s) (Some (jobDescription ?s))))"
    by (metis prod.collapse)
  have h4: "\<not> nullish revision_value" and h7: "\<not> nullish analysis_value"
    by (simp_all add: scenario_defs nullish_def)
  have h5: "fullContent App_b ?rt (newDraft stored_draft revision_value) = Inr ?txt"
    by (simp add: scenario_defs fullContent_def newDraft_def read_field_def get_prop_def
          nullish_def join_values_def)
  have f: "fst (analyzeResume ?svc \<lparr>src_text = Some ?txt, src_file = None\<rparr>
                  (Some (jobDescription ?s))) = Inr analysis_value"
    by (simp add: scenario_defs service_defs Let_def)
  then have h6: "analyzeResume ?svc \<lparr>src_text = Some ?txt, src_file = None\<rparr>
                   (Some (jobDescription ?s)) =
                 (Inr analysis_value,
                  snd (analyzeResume ?svc \<lparr>src_text = Some ?txt, src_file = None\<rparr>
                         (Some (jobDescription ?s))))"
    by (metis prod.collapse)
  have ne: "''mode'' \<noteq> ''match_score''" by simp
  note cycle = handleRectify_overwrites_only_match_score [OF h1 h2 h3 h4 h5 h6 h7]
  have kept: "read_field (analysis (after ?s (handleRectify App_b ?rt ?svc ?s))) ''mode'' =
                read_field (analysis ?s) ''mode''"
    by (rule cycle [THEN conjunct1, rule_format, OF ne])
  have scored: "read_field (analysis (after ?s (handleRectify App_b ?rt ?svc ?s))) ''match_score'' =
                  read_field analysis_value ''match_score''"
    by (rule cycle [THEN conjunct2, THEN conjunct1])
  have before: "read_field (analysis ?s) ''mode'' = JStr ''generalized''"
    and new: "read_field analysis_value ''match_score'' = JNum 80"
    by (simp_all add: scenario_defs read_field_def)
  from kept before have kept': "read_field (analysis (after ?s (handleRectify App_b ?rt ?svc ?s))) ''mode'' =
                JStr ''generalized''"
    by (rule trans)
  from scored new have scored': "read_field (analysis (after ?s (handleRectify App_b ?rt ?svc ?s))) ''match_score'' =
                JNum 80"
    by (rule trans)
  from h1 h2 r h4 h5 f h7 ne kept' scored' show ?thesis
    by (intro conjI)
qed

text \<open>
  Claim C7, as amended. The claim says that the baseline is the score of the most recent
  successful extraction, untouched by a revision cycle, and that a new extraction keeps
  the previous score as the baseline. The first part holds: \<^verbatim>\<open>handleRectify\<close> never
  changes \<open>prevScore\<close>, in no state it passes through. The second part does not. An
  extraction whose service call resolves to a value other than \<^verbatim>\<open>null\<close> and
  \<^verbatim>\<open>undefined\<close> stores that value and sets the baseline to its \<^verbatim>\<open>match_score\<close>,
  replacing any earlier baseline; no alert is shown. An extraction whose call fails
  shows the failure alert and leaves the analysis and the baseline as they were. An
  extraction whose call resolves to \<^verbatim>\<open>null\<close> or \<^verbatim>\<open>undefined\<close> stores that as the
  analysis, shows the failure alert and leaves the draft and the baseline as they were.
  Without a source the handler does nothing.
\<close>

theorem baseline_follows_latest_extraction:
  "map prevScore (commits (handleRectify ver rt svc s)) =
     replicate (length (commits (handleRectify ver rt svc s))) (prevScore s) \<and>
   prevScore (after s (handleRectify ver rt svc s)) = prevScore s \<and>
   (resumeSource s = Some source \<and>
    analyzeResume svc source (Some (jobDescription s)) = (Inr res, q) \<and> \<not> nullish res \<longrightarrow>
      analysis (after s (handleAnalyze ver svc s)) = res \<and>
      prevScore (after s (handleAnalyze ver svc s)) = read_field res ''match_score'' \<and>
      alerts (handleAnalyze ver svc s) = []) \<and>
   (resumeSource s = Some source \<and>
    analyzeResume svc source (Some (jobDescription s)) = (Inl err, q) \<longrightarrow>
      analysis (after s (handleAnalyze ver svc s)) = analysis s \<and>
      prevScore (after s (handleAnalyze ver svc s)) = prevScore s \<and>
      alerts (handleAnalyze ver svc s) = [analyzeAlert ver err]) \<and>
   (resumeSource s = Some source \<and>
    analyzeResume svc source (Some (jobDescription s)) = (Inr res, q) \<and> nullish res \<longrightarrow>
      analysis (after s (handleAnalyze ver svc s)) = res \<and>
      draft (after s (handleAnalyze ver svc s)) = draft s \<and>
      prevScore (after s (handleAnalyze ver svc s)) = prevScore s \<and>
      alerts (handleAnalyze ver svc s) = [analyzeAlert ver TypeError]) \<and>
   (resumeSource s = None \<longrightarrow> handleAnalyze ver svc s = nothing)"
proof (intro conjI impI)
  show m: "map prevScore (commits (handleRectify ver rt svc s)) =
     replicate (length (commits (handleRectify ver rt svc s))) (prevScore s)"
    by (rule handleRectify_prevScore)
  show "prevScore (after s (handleRectify ver rt svc s)) = prevScore s"
  proof (cases "commits (handleRectify ver rt svc s) = []")
    case True
    then show ?thesis by (simp add: after_def)
  next
    case False
    then have "prevScore (last (commits (handleRectify ver rt svc s))) =
                 last (map prevScore (commits (handleRectify ver rt svc s)))"
      by (simp add: last_map)
    also have "\<dots> = prevScore s"
      using False by (simp add: m)
    finally show ?thesis using False by (simp add: after_def)
  qed
next
  assume "resumeSource s = Some source \<and>
    analyzeResume svc source (Some (jobDescription s)) = (Inr res, q) \<and> \<not> nullish res"
  then show "analysis (after s (handleAnalyze ver svc s)) = res"
    and "prevScore (after s (handleAnalyze ver svc s)) = read_field res ''match_score''"
    and "alerts (handleAnalyze ver svc s) = []"
    by (simp_all add: handleAnalyze_def Let_def after_def nothing_def setter_defs)
next
  assume "resumeSource s = Some source \<and>
    analyzeResume svc source (Some (jobDescription s)) = (Inl err, q)"
  then show "analysis (after s (handleAnalyze ver svc s)) = analysis s"
    and "prevScore (after s (handleAnalyze ver svc s)) = prevScore s"
    and "alerts (handleAnalyze ver svc s) = [analyzeAlert ver err]"
    by (simp_all add: handleAnalyze_def Let_def after_def nothing_def setter_defs)
next
  assume "resumeSource s = Some source \<and>
    analyzeResume svc source (Some (jobDescription s)) = (Inr res, q) \<and> nullish res"
  then show "analysis (after s (handleAnalyze ver svc s)) = res"
    and "draft (after s (handleAnalyze ver svc s)) = draft s"
    and "prevScore (after s (handleAnalyze ver svc s)) = prevScore s"
    and "alerts (handleAnalyze ver svc s) = [analyzeAlert ver TypeError]"
    by (simp_all add: handleAnalyze_def Let_def after_def nothing_def setter_defs)
next
  assume "resumeSource s = None"
  then show "handleAnalyze ver svc s = nothing"
    by (simp add: handleAnalyze_def)
qed

text \<open>
  The theorem at four extractions, in the first snapshot over \<^verbatim>\<open>part_000\<close>: from the
  state that scored 50, one answered with the score 80, one refused and one answered
  with \<^verbatim>\<open>null\<close>; and one from the initial state, which has no source.
\<close>

theorem baseline_follows_latest_extraction_witness:
  "resumeSource analyzed_state = Some pdf_source \<and>
   fst (analyzeResume (geminiService Part_000 healthy_runtime) pdf_source
          (Some (jobDescription analyzed_state))) = Inr analysis_value \<and>
   \<not> nullish analysis_value \<and>
   analysis (after analyzed_state
      (handleAnalyze App_a (geminiService Part_000 healthy_runtime) analyzed_state)) =
     analysis_value \<and>
   prevScore (after analyzed_state
      (handleAnalyze App_a (geminiService Part_000 healthy_runtime) analyzed_state)) = JNum 80 \<and>
   fst (analyzeResume (geminiService Part_000 rescore_down_runtime) pdf_source
          (Some (jobDescription analyzed_state))) = Inl (Error ''503'') \<and>
   prevScore (after analyzed_state
      (handleAnalyze App_a (geminiService Part_000 rescore_down_runtime) analyzed_state)) = JNum 50 \<and>
   fst (analyzeResume (geminiService Part_000 null_runtime) pdf_source
          (Some (jobDescription analyzed_state))) = Inr JNull \<and>
   nullish JNull \<and>
   analysis (after analyzed_state
      (handleAnalyze App_a (geminiService Part_000 null_runtime) analyzed_state)) = JNull \<and>
   prevScore (after analyzed_state
      (handleAnalyze App_a (geminiService Part_000 null_runtime) analyzed_state)) = JNum 50 \<and>
   draft (after analyzed_state
      (handleAnalyze App_a (geminiService Part_000 null_runtime) analyzed_state)) =
     Some stored_draft \<and>
   resumeSource initial_state = None \<and>
   handleAnalyze App_a (geminiService Part_000 healthy_runtime) initial_state = nothing \<and>
   prevScore (after analyzed_state
      (handleRectify App_a healthy_runtime (geminiService Part_000 healthy_runtime)
         analyzed_state)) = JNum 50"
proof -
  let ?up = "geminiService Part_000 healthy_runtime"
  let ?down = "geminiService Part_000 rescore_down_runtime"
  let ?null = "geminiService Part_000 null_runtime"
  let ?s = analyzed_state
  have h1: "resumeSource ?s = Some pdf_source"
    by (simp add: scenario_defs)
  have ok: "fst (analyzeResume ?up pdf_source (Some (jobDescription ?s))) = Inr analysis_value"
    by (simp add: scenario_defs service_defs Let_def)
  then have h2: "analyzeResume ?up pdf_source (Some (jobDescription ?s)) =
                   (Inr analysis_value, snd (analyzeResume ?up pdf_source (Some (jobDescription ?s))))"
    by (metis prod.collapse)
  have h3: "\<not> nullish analysis_value"
    by (simp add: scenario_defs nullish_def)
  have ko: "fst (analyzeResume ?down pdf_source (Some (jobDescription ?s))) = Inl (Error ''503'')"
    by (simp add: scenario_defs service_defs Let_def)
  then have h4: "analyzeResume ?down pdf_source (Some (jobDescription ?s)) =
                   (Inl (Error ''503''), snd (analyzeResume ?down pdf_source (Some (jobDescription ?s))))"
    by (metis prod.collapse)
  have nl: "fst (analyzeResume ?null pdf_source (Some (jobDescription ?s))) = Inr JNull"
    by (simp add: scenario_defs service_defs Let_def)
  then have h5: "analyzeResume ?null pdf_source (Some (jobDescription ?s)) =
                   (Inr JNull, snd (analyzeResume ?null pdf_source (Some (jobDescription ?s))))"
    by (metis prod.collapse)
  have h6: "nullish JNull"
    by (simp add: nullish_def)
  have h7: "resumeSource initial_state = None"
    by (simp add: initial_state_def)
  have p: "prevScore ?s = JNum 50" and m: "read_field analysis_value ''match_score'' = JNum 80"
    and d: "draft ?s = Some stored_draft"
    by (simp_all add: scenario_defs read_field_def)
  note up = baseline_follows_latest_extraction
         [where ver = App_a and rt = healthy_runtime and svc = ?up and s = ?s
            and source = pdf_source and res = analysis_value
            and q = "snd (analyzeResume ?up pdf_source (Some (jobDescription ?s)))"]
  note down = baseline_follows_latest_extraction
         [where ver = App_a and rt = healthy_runtime and svc = ?down and s = ?s
            and source = pdf_source and err = "Error ''503''"
            and q = "snd (analyzeResume ?down pdf_source (Some (jobDescription ?s)))"]
  note null = baseline_follows_latest_extraction
         [where ver = App_a and rt = healthy_runtime and svc = ?null and s = ?s
            and source = pdf_source and res = JNull
            and q = "snd (analyzeResume ?null pdf_source (Some (jobDescription ?s)))"]
  note idle = baseline_follows_latest_extraction
         [where ver = App_a and rt = healthy_runtime and svc = ?up and s = initial_state]
  have c2: "prevScore (after ?s (handleRectify App_a healthy_runtime ?up ?s)) = JNum 50"
    using up [THEN conjunct2, THEN conjunct1] p by (rule trans)
  have c3: "analysis (after ?s (handleAnalyze App_a ?up ?s)) = analysis_value \<and>
            prevScore (after ?s (handleAnalyze App_a ?up ?s)) = read_field analysis_value ''match_score'' \<and>
            alerts (handleAnalyze App_a ?up ?s) = []"
    by (rule up [THEN conjunct2, THEN conjunct2, THEN conjunct1, THEN mp])
       (intro conjI h1 h2 h3)
  have c4: "analysis (after ?s (handleAnalyze App_a ?down ?s)) = analysis ?s \<and>
            prevScore (after ?s (handleAnalyze App_a ?down ?s)) = prevScore ?s \<and>
            alerts (handleAnalyze App_a ?down ?s) = [analyzeAlert App_a (Error ''503'')]"
    by (rule down [THEN conjunct2, THEN conjunct2, THEN conjunct2, THEN conjunct1, THEN mp])
       (intro conjI h1 h4)
  have c5: "analysis (after ?s (handleAnalyze App_a ?null ?s)) = JNull \<and>
            draft (after ?s (handleAnalyze App_a ?null ?s)) = draft ?s \<and>
            prevScore (after ?s (handleAnalyze App_a ?null ?s)) = prevScore ?s \<and>
            alerts (handleAnalyze App_a ?null ?s) = [analyzeAlert App_a TypeError]"
    by (rule null [THEN conjunct2, THEN conjunct2, THEN conjunct2, THEN conjunct2, THEN conjunct1,
                  THEN mp])
       (intro conjI h1 h5 h6)
  have c6: "handleAnalyze App_a ?up initial_state = nothing"
    by (rule idle [THEN conjunct2, THEN conjunct2, THEN conjunct2, THEN conjunct2, THEN conjunct2,
                  THEN mp, OF h7])
  from c3 c4 c5 p m d
  have "prevScore (after ?s (handleAnalyze App_a ?up ?s)) = JNum 80"
    and "prevScore (after ?s (handleAnalyze App_a ?down ?s)) = JNum 50"
    and "prevScore (after ?s (handleAnalyze App_a ?null ?s)) = JNum 50"
    and "draft (after ?s (handleAnalyze App_a ?null ?s)) = Some stored_draft"
    by simp_all
  with h1 ok h3 ko nl h6 h7 c2 c3 c5 c6 show ?thesis
    by simp
qed

text \<open>
  The claim as stated fails in both snapshots: extracting again from the state whose
  score and baseline are 50, with an answer that scores 80, leaves the baseline at 80;
  the previous score is not retained.
\<close>

theorem reextraction_overwrites_baseline:
  "read_field (analysis analyzed_state) ''match_score'' = JNum 50 \<and>
   prevScore analyzed_state = JNum 50 \<and>
   prevScore (after analyzed_state
      (handleAnalyze App_a (geminiService Part_000 healthy_runtime) analyzed_state)) = JNum 80 \<and>
   prevScore (after analyzed_state
      (handleAnalyze App_b (geminiService Part_000 healthy_runtime) analyzed_state)) = JNum 80"
  by (simp add: scenario_defs service_defs handleAnalyze_def after_def nothing_def setter_defs
        Let_def)

text \<open>
  Claim C8, as amended. Once the revision call has succeeded and its result has been
  rendered, the handler makes exactly two service calls: the revision, and an analysis
  whose source has the rendered text and no file; the requests the handler issues are
  those of the revision followed by those of that analysis call, and the handler acts
  on its outcome (the score on success, the alert on failure). Linked with any of the
  three service snapshots, when the call gets as far as the delegate, the request it
  adds carries the instruction and the labelled text, and no inline data. For a revision
  result of the declared structure the text is the revised summary, an empty line, and
  one line group per revised entry: its role and its bullets in the first snapshot of
  the application; in the second, its role, \<^verbatim>\<open> at \<close>, its company, and its bullets.
\<close>

theorem handleRectify_rescores_rendered_text:
  assumes "truthy (analysis s)" and "draft s = Some d"
    and "rectifyResume svc (analysis s) (Some (jobDescription s)) = (Inr res, q1)"
    and "\<not> nullish res"
    and "fullContent ver rt (newDraft d res) = Inr txt"
  shows "calls (handleRectify ver rt svc s) =
           [RectifyCall (analysis s) (Some (jobDescription s)),
            AnalyzeCall \<lparr>src_text = Some txt, src_file = None\<rparr> (Some (jobDescription s))] \<and>
         requests (handleRectify ver rt svc s) =
           q1 @ snd (analyzeResume svc \<lparr>src_text = Some txt, src_file = None\<rparr>
                       (Some (jobDescription s))) \<and>
         (analyzeResume svc \<lparr>src_text = Some txt, src_file = None\<rparr> (Some (jobDescription s)) =
            (Inr reScore, q') \<and> \<not> nullish reScore \<longrightarrow>
            read_field (analysis (after s (handleRectify ver rt svc s))) ''match_score'' =
              read_field reScore ''match_score'' \<and>
            alerts (handleRectify ver rt svc s) = []) \<and>
         (analyzeResume svc \<lparr>src_text = Some txt, src_file = None\<rparr> (Some (jobDescription s)) =
            (Inl err, q') \<longrightarrow>
            alerts (handleRectify ver rt svc s) = [rectifyAlert ver]) \<and>
         (svc = geminiService p rt' \<and> (p = Part_000 \<longrightarrow> truthy_str (API_KEY rt')) \<and>
          GoogleGenAI rt' (API_KEY rt') = None \<longrightarrow>
            requests (handleRectify ver rt svc s) =
              q1 @ [analysis_request
                      [TextPart (systemPrompt_of p (Some (jobDescription s))),
                       TextPart (contentLabel_of p @ ''\<newline>'' @ txt)]
                      (budget_of p)]) \<and>
         (conforms RECTIFY_SCHEMA res \<longrightarrow> txt = amendedText ver res)"
proof (intro conjI impI)
  let ?source = "\<lparr>src_text = Some txt, src_file = None\<rparr>"
  let ?jd = "Some (jobDescription s)"
  show "calls (handleRectify ver rt svc s) = [RectifyCall (analysis s) ?jd, AnalyzeCall ?source ?jd]"
    unfolding handleRectify_revised [OF assms]
    by (simp add: Let_def nothing_def split: prod.split sum.split)
  show issued: "requests (handleRectify ver rt svc s) = q1 @ snd (analyzeResume svc ?source ?jd)"
    unfolding handleRectify_revised [OF assms]
    by (simp add: Let_def nothing_def split: prod.split sum.split)
  {
    assume "analyzeResume svc ?source ?jd = (Inr reScore, q') \<and> \<not> nullish reScore"
    then show "read_field (analysis (after s (handleRectify ver rt svc s))) ''match_score'' =
                 read_field reScore ''match_score''"
      and "alerts (handleRectify ver rt svc s) = []"
      unfolding handleRectify_revised [OF assms]
      using assms(1)
      by (simp_all add: Let_def after_def nothing_def setter_defs rescoreUpdater_def get_prop_def
            read_field_update)
  }
  {
    assume "analyzeResume svc ?source ?jd = (Inl err, q')"
    then show "alerts (handleRectify ver rt svc s) = [rectifyAlert ver]"
      unfolding handleRectify_revised [OF assms]
      by (simp add: Let_def nothing_def)
  }
  {
    assume linked: "svc = geminiService p rt' \<and> (p = Part_000 \<longrightarrow> truthy_str (API_KEY rt')) \<and>
          GoogleGenAI rt' (API_KEY rt') = None"
    from assms(5) have "txt \<noteq> []"
      by (rule fullContent_nonempty)
    then have req: "analysis_request_of p ?source ?jd =
        analysis_request [TextPart (systemPrompt_of p ?jd), TextPart (contentLabel_of p @ ''\<newline>'' @ txt)]
          (budget_of p)"
      by (simp add: analysis_request_of_def analysis_parts_def)
    from linked have "analyzeResume svc ?source ?jd = answer_of p rt' (analysis_request_of p ?source ?jd)"
      by (simp add: geminiService_def analyzeResume_of_reached)
    with req issued show "requests (handleRectify ver rt svc s) =
              q1 @ [analysis_request
                      [TextPart (systemPrompt_of p ?jd), TextPart (contentLabel_of p @ ''\<newline>'' @ txt)]
                      (budget_of p)]"
      by simp
  }
  {
    assume "conforms RECTIFY_SCHEMA res"
    from fullContent_conforming [OF this, of ver rt d] assms(5)
    show "txt = amendedText ver res"
      by simp
  }
qed

text \<open>
  The theorem at two runs of the first snapshot over \<^verbatim>\<open>part_000\<close>, from the state that
  scored 50: one where the second analysis is answered, one where it is refused.
\<close>

theorem handleRectify_rescores_rendered_text_witness:
  "truthy (analysis analyzed_state) \<and>
   draft analyzed_state = Some stored_draft \<and>
   fst (rectifyResume (geminiService Part_000 healthy_runtime) (analysis analyzed_state)
          (Some (jobDescription analyzed_state))) = Inr revision_value \<and>
   \<not> nullish revision_value \<and>
   conforms RECTIFY_SCHEMA revision_value \<and>
   fullContent App_a healthy_runtime (newDraft stored_draft revision_value) =
     Inr ''New summary\<newline>\<newline>Engineer\<newline>Built X\<newline>Led Y'' \<and>
   amendedText App_a revision_value = ''New summary\<newline>\<newline>Engineer\<newline>Built X\<newline>Led Y'' \<and>
   calls (handleRectify App_a healthy_runtime (geminiService Part_000 healthy_runtime)
            analyzed_state) =
     [RectifyCall stored_analysis (Some []),
      AnalyzeCall \<lparr>src_text = Some ''New summary\<newline>\<newline>Engineer\<newline>Built X\<newline>Led Y'',
                   src_file = None\<rparr> (Some [])] \<and>
   requests (handleRectify App_a healthy_runtime (geminiService Part_000 healthy_runtime)
               analyzed_state) =
     snd (rectifyResume (geminiService Part_000 healthy_runtime) stored_analysis (Some [])) @
     [analysis_request
        [TextPart systemPrompt_p0,
         TextPart ''RAW CONTENT:\<newline>New summary\<newline>\<newline>Engineer\<newline>Built X\<newline>Led Y'']
        4000] \<and>
   read_field (analysis (after analyzed_state
      (handleRectify App_a healthy_runtime (geminiService Part_000 healthy_runtime)
         analyzed_state))) ''match_score'' = JNum 80 \<and>
   alerts (handleRectify App_a rescore_down_runtime (geminiService Part_000 rescore_down_runtime)
             analyzed_state) =
     [Alert ''The surgery was interrupted. Please try again.'']"
proof -
  let ?rt = healthy_runtime
  let ?svc = "geminiService Part_000 ?rt"
  let ?down = rescore_down_runtime
  let ?dsvc = "geminiService Part_000 ?down"
  let ?s = analyzed_state
  let ?txt = "''New summary\<newline>\<newline>Engineer\<newline>Built X\<newline>Led Y''"
  let ?source = "\<lparr>src_text = Some ?txt, src_file = None\<rparr>"
  have st: "analysis ?s = stored_analysis" "jobDescription ?s = []"
    by (simp_all add: analyzed_state_def)
  have h1: "truthy (analysis ?s)" and h2: "draft ?s = Some stored_draft"
    by (simp_all add: scenario_defs)
  have r: "fst (rectifyResume ?svc (analysis ?s) (Some (jobDescription ?s))) = Inr revision_value"
    by (simp add: scenario_defs service_defs)
  then have h3: "rectifyResume ?svc (analysis ?s) (Some (jobDescription ?s)) =
                   (Inr revision_value, snd (rectifyResume ?svc (analysis ?s) (Some (jobDescription ?s))))"
    by (metis prod.collapse)
  have r': "fst (rectifyResume ?dsvc (analysis ?s) (Some (jobDescription ?s))) = Inr revision_value"
    by (simp add: scenario_defs service_defs)
  then have h3': "rectifyResume ?dsvc (analysis ?s) (Some (jobDescription ?s)) =
                   (Inr revision_value, snd (rectifyResume ?dsvc (analysis ?s) (Some (jobDescription ?s))))"
    by (metis prod.collapse)
  have h4: "\<not> nullish revision_value"
    by (simp add: scenario_defs nullish_def)
  have cf: "conforms RECTIFY_SCHEMA revision_value"
    by (simp add: RECTIFY_SCHEMA_def revision_value_def)
  have am: "amendedText App_a revision_value = ?txt"
    by (simp add: amendedText_def claimedEntryText_def bulletLines_def string_of_def
          elements_of_def read_field_def revision_value_def)
  have h5: "fullContent App_a ?rt (newDraft stored_draft revision_value) = Inr ?txt"
    using fullContent_conforming [OF cf, of App_a ?rt stored_draft] am by simp
  have h5': "fullContent App_a ?down (newDraft stored_draft revision_value) = Inr ?txt"
    using fullContent_conforming [OF cf, of App_a ?down stored_draft] am by simp
  have ok: "fst (analyzeResume ?svc ?source (Some (jobDescription ?s))) = Inr analysis_value"
    by (simp add: scenario_defs service_defs Let_def)
  then have h6: "analyzeResume ?svc ?source (Some (jobDescription ?s)) =
                   (Inr analysis_value, snd (analyzeResume ?svc ?source (Some (jobDescription ?s))))"
    by (metis prod.collapse)
  have h7: "\<not> nullish analysis_value"
    by (simp add: scenario_defs nullish_def)
  have ko: "fst (analyzeResume ?dsvc ?source (Some (jobDescription ?s))) = Inl (Error ''503'')"
    by (simp add: scenario_defs service_defs Let_def)
  then have h8: "analyzeResume ?dsvc ?source (Some (jobDescription ?s)) =
                   (Inl (Error ''503''), snd (analyzeResume ?dsvc ?source (Some (jobDescription ?s))))"
    by (metis prod.collapse)
  have linked: "?svc = geminiService Part_000 ?rt \<and>
                (Part_000 = Part_000 \<longrightarrow> truthy_str (API_KEY ?rt)) \<and>
                GoogleGenAI ?rt (API_KEY ?rt) = None"
    by (simp add: healthy_runtime_def scripted_runtime_sel)
  note up = handleRectify_rescores_rendered_text
              [OF h1 h2 h3 h4 h5, where reScore = analysis_value and p = Part_000 and rt' = ?rt
                 and q' = "snd (analyzeResume ?svc ?source (Some (jobDescription ?s)))"]
  note dn = handleRectify_rescores_rendered_text
              [OF h1 h2 h3' h4 h5', where err = "Error ''503''"
                 and q' = "snd (analyzeResume ?dsvc ?source (Some (jobDescription ?s)))"]
  have c1: "calls (handleRectify App_a ?rt ?svc ?s) =
              [RectifyCall stored_analysis (Some []), AnalyzeCall ?source (Some [])]"
    using up [THEN conjunct1] by (simp only: st)
  have c3: "read_field (analysis (after ?s (handleRectify App_a ?rt ?svc ?s))) ''match_score'' =
              read_field analysis_value ''match_score'' \<and>
            alerts (handleRectify App_a ?rt ?svc ?s) = []"
    by (rule up [THEN conjunct2, THEN conjunct2, THEN conjunct1, THEN mp]) (intro conjI h6 h7)
  have c4: "alerts (handleRectify App_a ?down ?dsvc ?s) = [rectifyAlert App_a]"
    by (rule dn [THEN conjunct2, THEN conjunct2, THEN conjunct2, THEN conjunct1, THEN mp, OF h8])
  have c5: "requests (handleRectify App_a ?rt ?svc ?s) =
              snd (rectifyResume ?svc stored_analysis (Some [])) @
              [analysis_request
                 [TextPart systemPrompt_p0, TextPart (''RAW CONTENT:'' @ ''\<newline>'' @ ?txt)] 4000]"
    using up [THEN conjunct2, THEN conjunct2, THEN conjunct2, THEN conjunct2, THEN conjunct1,
              THEN mp, OF linked]
    by (simp add: st)
  have c6: "?txt = amendedText App_a revision_value"
    by (rule up [THEN conjunct2, THEN conjunct2, THEN conjunct2, THEN conjunct2, THEN conjunct2,
                 THEN mp, OF cf])
  have m: "read_field analysis_value ''match_score'' = JNum 80"
    by (simp add: analysis_value_def read_field_def)
  from c3 m have c3': "read_field (analysis (after ?s (handleRectify App_a ?rt ?svc ?s)))
                         ''match_score'' = JNum 80"
    by simp
  from c4 have c4': "alerts (handleRectify App_a ?down ?dsvc ?s) =
                       [Alert ''The surgery was interrupted. Please try again.'']"
    by simp
  from c5 have c5': "requests (handleRectify App_a ?rt ?svc ?s) =
              snd (rectifyResume ?svc stored_analysis (Some [])) @
              [analysis_request
                 [TextPart systemPrompt_p0,
                  TextPart ''RAW CONTENT:\<newline>New summary\<newline>\<newline>Engineer\<newline>Built X\<newline>Led Y'']
                 4000]"
    by simp
  from h1 h2 r h4 cf h5 c6 [symmetric] c1 c5' c3' c4' show ?thesis
    by (intro conjI)
qed

text \<open>
  The claim as stated fails in the second snapshot of the application: for a revision
  result of the declared structure, the text that is scored again is not the summary
  followed by each entry's role and bullets; the company stands after each role, so two
  results that differ in the company alone, which the claimed text cannot tell apart,
  give different texts.
\<close>

theorem rescored_text_names_company:
  "fst (rectifyResume (geminiService Part_000 healthy_runtime) (analysis analyzed_state)
          (Some (jobDescription analyzed_state))) = Inr revision_value \<and>
   conforms RECTIFY_SCHEMA revision_value \<and>
   claimedText revision_value = ''New summary\<newline>\<newline>Engineer\<newline>Built X\<newline>Led Y'' \<and>
   calls (handleRectify App_b healthy_runtime (geminiService Part_000 healthy_runtime)
            analyzed_state) =
     [RectifyCall stored_analysis (Some []),
      AnalyzeCall \<lparr>src_text = Some ''New summary\<newline>\<newline>Engineer at Acme\<newline>Built X\<newline>Led Y'',
                   src_file = None\<rparr> (Some [])] \<and>
   ''New summary\<newline>\<newline>Engineer at Acme\<newline>Built X\<newline>Led Y'' \<noteq> claimedText revision_value \<and>
   conforms RECTIFY_SCHEMA revision_elsewhere \<and>
   claimedText revision_elsewhere = claimedText revision_value \<and>
   fullContent App_b healthy_runtime (newDraft stored_draft revision_elsewhere) \<noteq>
     fullContent App_b healthy_runtime (newDraft stored_draft revision_value)"
proof -
  let ?rt = healthy_runtime
  let ?svc = "geminiService Part_000 ?rt"
  let ?s = analyzed_state
  have r: "fst (rectifyResume ?svc (analysis ?s) (Some (jobDescription ?s))) = Inr revision_value"
    by (simp add: scenario_defs service_defs)
  have cf: "conforms RECTIFY_SCHEMA revision_value"
    by (simp add: RECTIFY_SCHEMA_def revision_value_def)
  have cl: "claimedText revision_value = ''New summary\<newline>\<newline>Engineer\<newline>Built X\<newline>Led Y''"
    by (simp add: claimedText_def claimedEntryText_def bulletLines_def string_of_def
          elements_of_def read_field_def revision_value_def)
  have calls: "calls (handleRectify App_b ?rt ?svc ?s) =
     [RectifyCall stored_analysis (Some []),
      AnalyzeCall \<lparr>src_text = Some ''New summary\<newline>\<newline>Engineer at Acme\<newline>Built X\<newline>Led Y'',
                   src_file = None\<rparr> (Some [])]"
    by (simp add: handleRectify_def fullContent_def newDraft_def scenario_defs service_defs
          Let_def nothing_def setter_defs rescoreUpdater_def)
  have ne: "''New summary\<newline>\<newline>Engineer at Acme\<newline>Built X\<newline>Led Y'' \<noteq> claimedText revision_value"
    by (simp add: cl)
  have cf': "conforms RECTIFY_SCHEMA revision_elsewhere"
    by (simp add: RECTIFY_SCHEMA_def revision_elsewhere_def)
  have cl': "claimedText revision_elsewhere = claimedText revision_value"
    by (simp add: claimedText_def claimedEntryText_def bulletLines_def string_of_def
          elements_of_def read_field_def revision_value_def revision_elsewhere_def)
  have moved: "fullContent App_b ?rt (newDraft stored_draft revision_elsewhere) \<noteq>
                 fullContent App_b ?rt (newDraft stored_draft revision_value)"
  proof -
    have there: "fullContent App_b ?rt (newDraft stored_draft revision_elsewhere) =
                   Inr (amendedText App_b revision_elsewhere)"
      by (rule fullContent_conforming [OF cf'])
    have here: "fullContent App_b ?rt (newDraft stored_draft revision_value) =
                  Inr (amendedText App_b revision_value)"
      by (rule fullContent_conforming [OF cf])
    have "amendedText App_b revision_elsewhere =
            ''New summary\<newline>\<newline>Engineer at Globex\<newline>Built X\<newline>Led Y''"
      and "amendedText App_b revision_value =
            ''New summary\<newline>\<newline>Engineer at Acme\<newline>Built X\<newline>Led Y''"
      by (simp_all add: amendedText_def bulletLines_def string_of_def elements_of_def
            read_field_def revision_value_def revision_elsewhere_def)
    then show ?thesis
      unfolding there here by simp
  qed
  from r cf cl calls ne cf' cl' moved show ?thesis
    by (intro conjI)
qed

subsection \<open>Reset\<close>




end
